theory Spec2Isabelle
  imports Complex_Main "HOL-Library.Sublist" "HOL-Library.Multiset"
begin

section \<open>Python strings\<close>

text \<open>
  Strings are character lists. The product names and queries of the program are Python
  \<open>str\<close> values; the model covers their ASCII part: \<open>lower\<close> maps \<open>A\<close>..\<open>Z\<close> to
  \<open>a\<close>..\<open>z\<close> and leaves every other character alone, and the classes \<open>\d\<close>, \<open>\w\<close>,
  \<open>\s\<close> of the regular expressions are the ASCII ones. Python floats are modelled as
  exact real numbers.
\<close>

definition upper_letters :: string where
  "upper_letters = ''ABCDEFGHIJKLMNOPQRSTUVWXYZ''"

definition lower_letters :: string where
  "lower_letters = ''abcdefghijklmnopqrstuvwxyz''"

definition digit_chars :: string where
  "digit_chars = ''0123456789''"

definition lower_char :: "char \<Rightarrow> char" where
  "lower_char c = (case map_of (zip upper_letters lower_letters) c of Some d \<Rightarrow> d | None \<Rightarrow> c)"

text \<open>\<open>s.lower()\<close>\<close>

definition lower :: "string \<Rightarrow> string" where
  "lower s = map lower_char s"

text \<open>\<open>k in s\<close> on strings: \<open>k\<close> occurs in \<open>s\<close> as a contiguous substring.\<close>

fun py_in :: "string \<Rightarrow> string \<Rightarrow> bool" where
  "py_in k [] = (k = [])"
| "py_in k (c # cs) = (prefix k (c # cs) \<or> py_in k cs)"

definition is_digit :: "char \<Rightarrow> bool" where
  "is_digit c = (c \<in> set digit_chars)"

text \<open>\<open>\w\<close>: a letter, a digit or the underscore.\<close>

definition is_word :: "char \<Rightarrow> bool" where
  "is_word c = (c \<in> set upper_letters \<or> c \<in> set lower_letters \<or> is_digit c \<or> c = CHR ''_'')"

text \<open>
  \<open>\s\<close> and the separators of \<open>str.split()\<close>: space, tab, line feed, vertical tab, form
  feed, carriage return and the four ASCII separators \<open>0x1c\<close>..\<open>0x1f\<close>.
\<close>

definition is_space :: "char \<Rightarrow> bool" where
  "is_space c = (c \<in> set [CHR '' '', CHR 0x09, CHR 0x0A, CHR 0x0B, CHR 0x0C, CHR 0x0D,
                            CHR 0x1C, CHR 0x1D, CHR 0x1E, CHR 0x1F])"

text \<open>
  Maximal runs of characters satisfying \<open>P\<close>, left to right: \<open>re.findall(r'\w+', s)\<close> is
  \<open>runs is_word s\<close> and \<open>s.split()\<close> is \<open>runs (\<lambda>c. \<not> is_space c) s\<close>. The second argument
  is the run being read.
\<close>

fun runs_acc :: "(char \<Rightarrow> bool) \<Rightarrow> string \<Rightarrow> string \<Rightarrow> string list" where
  "runs_acc P cur [] = (if cur = [] then [] else [cur])"
| "runs_acc P cur (c # cs) =
     (if P c then runs_acc P (cur @ [c]) cs
      else if cur = [] then runs_acc P [] cs
      else cur # runs_acc P [] cs)"

definition runs :: "(char \<Rightarrow> bool) \<Rightarrow> string \<Rightarrow> string list" where
  "runs P s = runs_acc P [] s"

definition py_split :: "string \<Rightarrow> string list" where
  "py_split s = runs (\<lambda>c. \<not> is_space c) s"

section \<open>The ranker: \<open>mcdm_ranker.py\<close>\<close>

subsection \<open>Key terms\<close>

definition stop_words :: "string list" where
  "stop_words = [''the'', ''a'', ''an'', ''and'', ''or'', ''but'', ''in'', ''on'', ''at'',
                 ''to'', ''for'', ''of'', ''with'', ''by'']"

definition extract_key_terms :: "string \<Rightarrow> string list" where
  "extract_key_terms query =
     (let terms = runs is_word (lower query)
      in filter (\<lambda>term. length term > 2 \<and> term \<notin> set stop_words) terms)"

subsection \<open>Category alignment\<close>

text \<open>The dictionary \<open>categories\<close>, in insertion order (the order the loop visits it).\<close>

definition categories :: "(string \<times> string list) list" where
  "categories =
     [(''phone'', [''iphone'', ''phone'', ''mobile'', ''smartphone'', ''galaxy'', ''pixel'', ''oneplus'']),
      (''laptop'', [''laptop'', ''macbook'', ''thinkpad'', ''notebook'', ''computer'']),
      (''tablet'', [''ipad'', ''tablet'', ''kindle'']),
      (''audio'', [''headphones'', ''earbuds'', ''speaker'', ''airpods'']),
      (''accessory'', [''case'', ''cover'', ''charger'', ''cable'', ''screen protector'', ''silicon'', ''leather''])]"

text \<open>\<open>any(keyword in s for keyword in keywords)\<close>\<close>

definition any_keyword_in :: "string list \<Rightarrow> string \<Rightarrow> bool" where
  "any_keyword_in keywords s = list_ex (\<lambda>keyword. py_in keyword s) keywords"

text \<open>The first category, in dictionary order, one of whose keywords occurs in the query.\<close>

fun find_query_category :: "(string \<times> string list) list \<Rightarrow> string \<Rightarrow> string option" where
  "find_query_category [] query = None"
| "find_query_category ((category, keywords) # rest) query =
     (if any_keyword_in keywords query then Some category else find_query_category rest query)"

definition keywords_of :: "string \<Rightarrow> string list" where
  "keywords_of category = (case map_of categories category of Some ks \<Rightarrow> ks | None \<Rightarrow> [])"

definition calculate_category_alignment :: "string \<Rightarrow> string \<Rightarrow> real" where
  "calculate_category_alignment product_name query =
     (case find_query_category categories query of
        None \<Rightarrow> 0.5
      | Some query_category \<Rightarrow>
          (let category_keywords = keywords_of query_category;
               product_matches_category = any_keyword_in category_keywords product_name;
               accessory_keywords = keywords_of ''accessory'';
               is_accessory = any_keyword_in accessory_keywords product_name
           in if query_category \<in> set [''phone'', ''laptop'', ''tablet'']
              then (if is_accessory then 0.1
                    else if product_matches_category then 1.0
                    else 0.3)
              else if product_matches_category then 1.0
              else if is_accessory \<and> query_category \<noteq> ''accessory'' then 0.2
              else 0.5))"

subsection \<open>Exact model match\<close>

text \<open>
  The six patterns of \<open>_is_exact_model_match\<close> are sequences of four kinds of atom:
  \<open>\b\<close>, \<open>\d+\<close>, \<open>\s*\<close> and a literal word. In every pattern the atom after \<open>\d+\<close> or
  \<open>\s*\<close> cannot start with a character of that class (and a \<open>\b\<close> cannot hold between two
  digits), so taking the longest run is the only way to match and the matcher needs no
  backtracking. \<open>match_atoms\<close> returns the text matched at the current position; its
  second argument is the character before that position.
\<close>

datatype atom = WordBoundary | Digits | Spaces | Lit string

definition at_boundary :: "char option \<Rightarrow> string \<Rightarrow> bool" where
  "at_boundary prev s =
     ((case prev of None \<Rightarrow> False | Some c \<Rightarrow> is_word c)
        \<noteq> (case s of [] \<Rightarrow> False | c # _ \<Rightarrow> is_word c))"

definition last_or :: "char option \<Rightarrow> string \<Rightarrow> char option" where
  "last_or prev m = (if m = [] then prev else Some (last m))"

fun match_atoms :: "atom list \<Rightarrow> char option \<Rightarrow> string \<Rightarrow> string option" where
  "match_atoms [] prev s = Some []"
| "match_atoms (WordBoundary # as) prev s =
     (if at_boundary prev s then match_atoms as prev s else None)"
| "match_atoms (Digits # as) prev s =
     (let ds = takeWhile is_digit s
      in if ds = [] then None
         else map_option ((@) ds) (match_atoms as (last_or prev ds) (dropWhile is_digit s)))"
| "match_atoms (Spaces # as) prev s =
     (let ws = takeWhile is_space s
      in map_option ((@) ws) (match_atoms as (last_or prev ws) (dropWhile is_space s)))"
| "match_atoms (Lit l # as) prev s =
     (if prefix l s
      then map_option ((@) l) (match_atoms as (last_or prev l) (drop (length l) s))
      else None)"

text \<open>
  \<open>re.findall\<close>: the matches found scanning left to right, each search resuming where the
  last match ended. \<open>skip\<close> counts the characters of the last match still to pass.
\<close>

fun findall_from :: "atom list \<Rightarrow> char option \<Rightarrow> nat \<Rightarrow> string \<Rightarrow> string list" where
  "findall_from pat prev skip [] =
     (if skip > 0 then []
      else case match_atoms pat prev [] of None \<Rightarrow> [] | Some m \<Rightarrow> [m])"
| "findall_from pat prev skip (c # cs) =
     (if skip > 0 then findall_from pat (Some c) (skip - 1) cs
      else case match_atoms pat prev (c # cs) of
             None \<Rightarrow> findall_from pat (Some c) 0 cs
           | Some m \<Rightarrow> m # findall_from pat (Some c) (length m - 1) cs)"

definition findall :: "atom list \<Rightarrow> string \<Rightarrow> string list" where
  "findall pat s = findall_from pat None 0 s"

definition pattern_pro_max :: "atom list" where
  "pattern_pro_max = [WordBoundary, Digits, Spaces, Lit ''pro'', Spaces, Lit ''max'', WordBoundary]"

definition pattern_pro :: "atom list" where
  "pattern_pro = [WordBoundary, Digits, Spaces, Lit ''pro'', WordBoundary]"

definition pattern_plus :: "atom list" where
  "pattern_plus = [WordBoundary, Digits, Spaces, Lit ''plus'', WordBoundary]"

definition pattern_r :: "atom list" where
  "pattern_r = [WordBoundary, Digits, Lit ''r'', WordBoundary]"

definition pattern_iphone :: "atom list" where
  "pattern_iphone = [WordBoundary, Lit ''iphone'', Spaces, Digits, WordBoundary]"

definition pattern_galaxy :: "atom list" where
  "pattern_galaxy = [WordBoundary, Lit ''galaxy'', Spaces, Lit ''s'', Digits, WordBoundary]"

definition model_patterns :: "atom list list" where
  "model_patterns =
     [pattern_pro_max, pattern_pro, pattern_plus, pattern_r, pattern_iphone, pattern_galaxy]"

definition is_exact_model_match :: "string \<Rightarrow> string \<Rightarrow> bool" where
  "is_exact_model_match product_name query =
     list_ex (\<lambda>pattern.
        let query_matches = findall pattern (lower query);
            product_matches = findall pattern (lower product_name)
        in query_matches \<noteq> [] \<and> product_matches \<noteq> []
           \<and> list_ex (\<lambda>q_match. q_match \<in> set product_matches) query_matches)
       model_patterns"

definition is_accessory_product :: "string \<Rightarrow> bool" where
  "is_accessory_product product_name =
     any_keyword_in [''case'', ''cover'', ''charger'', ''cable'', ''screen protector'',
                     ''silicon'', ''leather'', ''tempered glass''] product_name"

definition is_searching_for_accessory :: "string \<Rightarrow> bool" where
  "is_searching_for_accessory query =
     any_keyword_in [''case'', ''cover'', ''charger'', ''cable'', ''screen protector''] (lower query)"

subsection \<open>Relevance score\<close>

text \<open>
  \<open>fuzz.token_sort_ratio\<close> belongs to the fuzzywuzzy library, not to this program: it is the
  parameter \<open>tsr\<close>, an integer-valued similarity of two strings. The four components are
  the local variables \<open>fuzzy_score\<close>, \<open>exact_score\<close>, \<open>partial_score\<close> and
  \<open>category_score\<close> of \<open>calculate_relevance_score\<close>; they take the lower-cased name and
  query.
\<close>

type_synonym similarity = "string \<Rightarrow> string \<Rightarrow> int"

definition fuzzy_score :: "similarity \<Rightarrow> string \<Rightarrow> string \<Rightarrow> real" where
  "fuzzy_score tsr product_lower query_lower = real_of_int (tsr product_lower query_lower) / 100.0"

definition exact_score :: "string \<Rightarrow> string \<Rightarrow> real" where
  "exact_score product_lower query_lower =
     (let query_terms = extract_key_terms query_lower;
          exact_matches = length (filter (\<lambda>term. py_in term product_lower) query_terms);
          exact_score = (if query_terms \<noteq> []
                         then min (real exact_matches / real (length query_terms)) 1.0 else 0)
      in if is_exact_model_match product_lower query_lower
         then min (exact_score + 0.5) 1.0 else exact_score)"

definition partial_score :: "string \<Rightarrow> string \<Rightarrow> real" where
  "partial_score product_lower query_lower =
     (let query_terms = extract_key_terms query_lower;
          partial_matches =
            length (filter (\<lambda>term. list_ex (\<lambda>part. py_in part product_lower) (py_split term))
                      query_terms)
      in if query_terms \<noteq> []
         then min (real partial_matches / real (length query_terms)) 1.0 else 0)"

definition calculate_relevance_score :: "similarity \<Rightarrow> string \<Rightarrow> string \<Rightarrow> real" where
  "calculate_relevance_score tsr product_name search_query =
     (let product_lower = lower product_name;
          query_lower = lower search_query;
          category_score = calculate_category_alignment product_lower query_lower
      in sum_list [fuzzy_score tsr product_lower query_lower * 0.25,
                   exact_score product_lower query_lower * 0.40,
                   partial_score product_lower query_lower * 0.10,
                   category_score * 0.25])"

subsection \<open>Price normalisation\<close>

text \<open>
  \<open>min(prices)\<close> and \<open>max(prices)\<close> of a non-empty list; \<open>len(set(prices))\<close> is the number
  of distinct prices.
\<close>

definition py_min :: "real list \<Rightarrow> real" where
  "py_min xs = fold min (tl xs) (hd xs)"

definition py_max :: "real list \<Rightarrow> real" where
  "py_max xs = fold max (tl xs) (hd xs)"

definition normalize_price_score :: "real list \<Rightarrow> real list" where
  "normalize_price_score prices =
     (if prices = [] \<or> length (remdups prices) = 1 then replicate (length prices) 0.5
      else let min_price = py_min prices;
               max_price = py_max prices;
               price_range = max_price - min_price
           in map (\<lambda>price. if price_range = 0 then 0.5
                            else 1.0 - ((price - min_price) / price_range)) prices)"

subsection \<open>Composite score and ranking\<close>

text \<open>
  The dictionaries \<open>Product.to_dict\<close> builds, with the keys \<open>link\<close>, \<open>price\<close>, \<open>currency\<close>,
  \<open>productName\<close> and \<open>source\<close>; a ranked dictionary is a copy with the keys \<open>mcdm_score\<close>
  and \<open>relevance_score\<close> added. Every key is present in these dictionaries, so the
  defaults of \<open>product.get('source', 'Unknown')\<close> and \<open>product.get('relevance_score', 0)\<close>
  are never taken and the fields are read directly.
\<close>

record product_dict =
  d_link :: string
  d_price :: real
  d_currency :: string
  productName :: string
  d_source :: string

record ranked_product = product_dict +
  mcdm_score :: real
  relevance_score :: real

record criteria =
  relevance :: real
  price_raw :: real
  source_reliability :: real
  has_exact_match :: bool
  is_accessory :: bool

definition weight_relevance :: real where "weight_relevance = 0.75"
definition weight_price :: real where "weight_price = 0.20"
definition weight_source_reliability :: real where "weight_source_reliability = 0.05"

definition source_reliability_table :: "(string \<times> real) list" where
  "source_reliability_table =
     [(''Amazon.in'', 0.95), (''Flipkart'', 0.90), (''Walmart'', 0.95), (''eBay.com'', 0.85),
      (''eBay.in'', 0.85), (''Snapdeal'', 0.80), (''Shopsy'', 0.75)]"

text \<open>\<open>self.source_reliability.get(source, 0.5)\<close>\<close>

definition reliability_of :: "string \<Rightarrow> real" where
  "reliability_of src = (case map_of source_reliability_table src of Some r \<Rightarrow> r | None \<Rightarrow> 0.5)"

text \<open>First pass: one criteria row per product.\<close>

definition criteria_row :: "similarity \<Rightarrow> string \<Rightarrow> product_dict \<Rightarrow> criteria" where
  "criteria_row tsr search_query product =
     \<lparr>relevance = calculate_relevance_score tsr (productName product) search_query,
      price_raw = d_price product,
      source_reliability = reliability_of (d_source product),
      has_exact_match = is_exact_model_match (lower (productName product)) (lower search_query),
      is_accessory = is_accessory_product (lower (productName product))\<rparr>"

definition has_exact_matches :: "product_dict list \<Rightarrow> string \<Rightarrow> bool" where
  "has_exact_matches products search_query =
     list_ex (\<lambda>product. is_exact_model_match (lower (productName product)) (lower search_query))
       products"

text \<open>Second pass: the two penalties, applied to a row in this order.\<close>

definition apply_penalties :: "string \<Rightarrow> criteria \<Rightarrow> criteria" where
  "apply_penalties search_query c =
     (let c1 = (if \<not> has_exact_match c then c\<lparr>relevance := relevance c * 0.8\<rparr> else c)
      in if is_accessory c1 \<and> \<not> is_searching_for_accessory search_query
         then c1\<lparr>relevance := relevance c1 * 0.3\<rparr> else c1)"

definition criteria_matrix :: "similarity \<Rightarrow> product_dict list \<Rightarrow> string \<Rightarrow> criteria list" where
  "criteria_matrix tsr products search_query =
     (let rows = map (criteria_row tsr search_query) products
      in if has_exact_matches products search_query
         then map (apply_penalties search_query) rows else rows)"

text \<open>\<open>product.copy()\<close> with the two scores stored.\<close>

definition with_scores :: "product_dict \<Rightarrow> real \<Rightarrow> real \<Rightarrow> ranked_product" where
  "with_scores product score rel =
     \<lparr>d_link = d_link product, d_price = d_price product, d_currency = d_currency product,
      productName = productName product, d_source = d_source product,
      mcdm_score = score, relevance_score = rel\<rparr>"

text \<open>The ranked dictionaries in arrival order, before sorting.\<close>

definition scored_products :: "similarity \<Rightarrow> product_dict list \<Rightarrow> string \<Rightarrow> ranked_product list" where
  "scored_products tsr products search_query =
     (let cm = criteria_matrix tsr products search_query;
          prices = map price_raw cm;
          normalized_prices = normalize_price_score prices;
          final_scores =
            map (\<lambda>i. relevance (cm ! i) * weight_relevance
                      + normalized_prices ! i * weight_price
                      + source_reliability (cm ! i) * weight_source_reliability)
              [0..<length cm]
      in map (\<lambda>i. with_scores (products ! i) (final_scores ! i) (relevance (cm ! i)))
           [0..<length products])"

text \<open>
  \<open>list.sort(key=..., reverse=True)\<close> is stable: elements with equal keys keep their
  order. Sorting stably by the negated key gives the same list.
\<close>

definition sort_descending :: "('a \<Rightarrow> real) \<Rightarrow> 'a list \<Rightarrow> 'a list" where
  "sort_descending key xs = sort_key (\<lambda>x. - key x) xs"

definition calculate_mcdm_scores :: "similarity \<Rightarrow> product_dict list \<Rightarrow> string \<Rightarrow> ranked_product list" where
  "calculate_mcdm_scores tsr products search_query =
     (if products = [] then []
      else sort_descending mcdm_score (scored_products tsr products search_query))"

text \<open>The dictionary a ranked dictionary was copied from: a ranked dictionary without its two scores.\<close>

definition base_of :: "ranked_product \<Rightarrow> product_dict" where
  "base_of x =
     \<lparr>d_link = d_link x, d_price = d_price x, d_currency = d_currency x,
      productName = productName x, d_source = d_source x\<rparr>"

definition filter_low_relevance :: "ranked_product list \<Rightarrow> real \<Rightarrow> ranked_product list" where
  "filter_low_relevance products min_relevance =
     filter (\<lambda>product. relevance_score product \<ge> min_relevance) products"

section \<open>The search tool: \<open>enhanced_scraping_tool.py\<close>\<close>

subsection \<open>Products\<close>

text \<open>The dataclass \<open>Product\<close> and its \<open>to_dict\<close>.\<close>

record product =
  link :: string
  price :: real
  currency :: string
  product_name :: string
  source :: string

definition to_dict :: "product \<Rightarrow> product_dict" where
  "to_dict p =
     \<lparr>d_link = link p, d_price = price p, d_currency = currency p,
      productName = product_name p, d_source = source p\<rparr>"

subsection \<open>Removing duplicates\<close>

text \<open>
  \<open>fuzz.ratio\<close> is the library's too: the parameter \<open>ratio\<close>. \<open>name_similarity\<close> and
  \<open>price_diff\<close> are the local variables of the inner loop of \<open>_remove_duplicates\<close>, and
  \<open>duplicate_of\<close> is the test that sets \<open>is_duplicate\<close>.
\<close>

definition name_similarity :: "similarity \<Rightarrow> product \<Rightarrow> product \<Rightarrow> int" where
  "name_similarity ratio p existing = ratio (lower (product_name p)) (lower (product_name existing))"

definition price_diff :: "product \<Rightarrow> product \<Rightarrow> real" where
  "price_diff p existing = \<bar>price p - price existing\<bar> / max (max (price p) (price existing)) 1"

definition duplicate_of :: "similarity \<Rightarrow> product \<Rightarrow> product \<Rightarrow> bool" where
  "duplicate_of ratio p existing =
     (if currency p = currency existing
      then name_similarity ratio p existing > 90 \<and> price_diff p existing < 0.05
      else name_similarity ratio p existing > 95)"

text \<open>The inner loop: it stops at the first accepted product that \<open>p\<close> duplicates.\<close>

fun is_duplicate :: "similarity \<Rightarrow> product \<Rightarrow> product list \<Rightarrow> bool" where
  "is_duplicate ratio p [] = False"
| "is_duplicate ratio p (existing # rest) =
     (if duplicate_of ratio p existing then True else is_duplicate ratio p rest)"

text \<open>The outer loop, with \<open>unique_products\<close> as its state.\<close>

fun dedup_loop :: "similarity \<Rightarrow> product list \<Rightarrow> product list \<Rightarrow> product list" where
  "dedup_loop ratio unique_products [] = unique_products"
| "dedup_loop ratio unique_products (p # ps) =
     dedup_loop ratio
       (if is_duplicate ratio p unique_products then unique_products else unique_products @ [p]) ps"

definition remove_duplicates :: "similarity \<Rightarrow> product list \<Rightarrow> product list" where
  "remove_duplicates ratio products = dedup_loop ratio [] products"

text \<open>
  No product of \<open>ps\<close> is a duplicate, by the test of the loop, of a product of \<open>acc\<close> or of
  one before it in \<open>ps\<close>.
\<close>

fun no_residual_duplicates :: "similarity \<Rightarrow> product list \<Rightarrow> product list \<Rightarrow> bool" where
  "no_residual_duplicates ratio acc [] = True"
| "no_residual_duplicates ratio acc (p # ps) =
     (\<not> is_duplicate ratio p acc \<and> no_residual_duplicates ratio (acc @ [p]) ps)"

subsection \<open>Searching\<close>

text \<open>
  \<open>asyncio.gather(*tasks, return_exceptions=True)\<close> returns one result per scraper, in the
  order of the scrapers: the list a scraper returned, or the exception it raised (a
  timeout is an exception of the scraper). A scraper is modelled by its outcome for a query.
\<close>

datatype gather_result = Returned "product list" | Raised string

type_synonym scraper = "string \<Rightarrow> gather_result"

text \<open>The loop over \<open>results\<close>: lists extend \<open>all_products\<close>, exceptions are logged.\<close>

fun collect_products :: "product list \<Rightarrow> gather_result list \<Rightarrow> product list" where
  "collect_products all_products [] = all_products"
| "collect_products all_products (Returned l # results) = collect_products (all_products @ l) results"
| "collect_products all_products (Raised e # results) = collect_products all_products results"

definition search_products ::
  "similarity \<Rightarrow> similarity \<Rightarrow> scraper list \<Rightarrow> string \<Rightarrow> ranked_product list" where
  "search_products ratio tsr country_scrapers query =
     (if country_scrapers = [] then []
      else let results = map (\<lambda>scraper. scraper query) country_scrapers;
               all_products = collect_products [] results;
               unique_products = remove_duplicates ratio all_products;
               product_dicts = map to_dict unique_products;
               ranked_products = calculate_mcdm_scores tsr product_dicts query
           in filter_low_relevance ranked_products 0.2)"

definition succeeded :: "gather_result \<Rightarrow> bool" where
  "succeeded r = (case r of Returned l \<Rightarrow> True | Raised e \<Rightarrow> False)"

definition listings_of :: "gather_result \<Rightarrow> product list" where
  "listings_of r = (case r of Returned l \<Rightarrow> l | Raised e \<Rightarrow> [])"

section \<open>A similarity of the library's kind\<close>

text \<open>
  A concrete similarity to run the program on: the normalised insert-delete similarity
  \<open>round (100 * 2 * lcs / (|a| + |b|))\<close>, with 0 when either string is empty, which is what
  \<open>fuzz.ratio\<close> computes on top of python-Levenshtein. It is used for concrete inputs only;
  the properties below hold for every similarity.
\<close>

fun lcs_length :: "string \<Rightarrow> string \<Rightarrow> nat" where
  "lcs_length [] ys = 0"
| "lcs_length (x # xs) [] = 0"
| "lcs_length (x # xs) (y # ys) =
     (if x = y then Suc (lcs_length xs ys)
      else max (lcs_length (x # xs) ys) (lcs_length xs (y # ys)))"

text \<open>Python's \<open>round\<close> of the fraction \<open>n / d\<close>: to the nearest integer, ties to even.\<close>

definition round_half_even :: "nat \<Rightarrow> nat \<Rightarrow> nat" where
  "round_half_even n d =
     (let q = n div d; r = n mod d
      in if 2 * r < d then q
         else if 2 * r > d then q + 1
         else if even q then q else q + 1)"

definition indel_ratio :: similarity where
  "indel_ratio a b =
     (if a = [] \<or> b = [] then 0
      else int (round_half_even (200 * lcs_length a b) (length a + length b)))"

section \<open>Example listings\<close>

text \<open>
  A query and three listings for it as dictionaries, with the ranked dictionaries the
  program computes for them; two of the listings as products, and three scrapers, the
  second of which raises.
\<close>

definition example_query :: string where
  "example_query = ''iPhone 16 Pro''"

definition dict_phone :: product_dict where
  "dict_phone = \<lparr>d_link = ''u1'', d_price = 119900, d_currency = ''INR'',
     productName = ''iPhone 16 Pro'', d_source = ''Amazon.in''\<rparr>"

definition dict_case :: product_dict where
  "dict_case = \<lparr>d_link = ''u2'', d_price = 499, d_currency = ''INR'',
     productName = ''iPhone 16 Pro Case'', d_source = ''Snapdeal''\<rparr>"

definition dict_older :: product_dict where
  "dict_older = \<lparr>d_link = ''u3'', d_price = 99900, d_currency = ''INR'',
     productName = ''iPhone 15 Pro'', d_source = ''Croma''\<rparr>"

definition ranked_phone :: ranked_product where
  "ranked_phone = with_scores dict_phone (319 / 400) 1"

definition ranked_older :: ranked_product where
  "ranked_older = with_scores dict_older (77192813 / 119401000) (98 / 125)"

definition ranked_case :: ranked_product where
  "ranked_case = with_scores dict_case (3243 / 8000) (441 / 2000)"

definition product_phone :: product where
  "product_phone = \<lparr>link = ''u1'', price = 119900, currency = ''INR'',
     product_name = ''iPhone 16 Pro'', source = ''Amazon.in''\<rparr>"

definition product_case :: product where
  "product_case = \<lparr>link = ''u2'', price = 499, currency = ''INR'',
     product_name = ''iPhone 16 Pro Case'', source = ''Snapdeal''\<rparr>"

definition scraper_amazon :: scraper where
  "scraper_amazon query = Returned [product_phone]"

definition scraper_flipkart :: scraper where
  "scraper_flipkart query = Raised ''TimeoutError''"

definition scraper_snapdeal :: scraper where
  "scraper_snapdeal query = Returned [product_case]"

section \<open>Properties\<close>

subsection \<open>Category alignment\<close>

lemma find_query_category_None:
  "find_query_category cats query = None \<longleftrightarrow> (\<forall>(c, ks) \<in> set cats. \<not> any_keyword_in ks query)"
  by (induction cats query rule: find_query_category.induct) auto

text \<open>
  C10, as the code has it: when no keyword of any category occurs in the query the
  category-alignment component is the neutral 0.5. When the query has a category \<open>c\<close> and
  the listing name contains neither a keyword of \<open>c\<close> nor an accessory keyword, the
  component is 0.5 for the categories audio and accessory, and 0.3 ("different category")
  for the main-product categories phone, laptop and tablet.
\<close>

theorem category_alignment_unclassified:
  "((\<forall>(c, ks) \<in> set categories. \<not> any_keyword_in ks query)
      \<longrightarrow> calculate_category_alignment name query = 0.5) \<and>
   (find_query_category categories query = Some c
      \<and> \<not> any_keyword_in (keywords_of c) name
      \<and> \<not> any_keyword_in (keywords_of ''accessory'') name
      \<longrightarrow> calculate_category_alignment name query =
            (if c \<in> {''phone'', ''laptop'', ''tablet''} then 0.3 else 0.5))"
proof (intro conjI impI)
  assume "\<forall>(c, ks) \<in> set categories. \<not> any_keyword_in ks query"
  then have "find_query_category categories query = None"
    by (simp add: find_query_category_None)
  then show "calculate_category_alignment name query = 0.5"
    by (simp add: calculate_category_alignment_def)
next
  assume h: "find_query_category categories query = Some c
      \<and> \<not> any_keyword_in (keywords_of c) name
      \<and> \<not> any_keyword_in (keywords_of ''accessory'') name"
  then show "calculate_category_alignment name query =
            (if c \<in> {''phone'', ''laptop'', ''tablet''} then 0.3 else 0.5)"
    by (simp add: calculate_category_alignment_def Let_def)
qed

theorem category_alignment_unclassified_witness:
  "calculate_category_alignment ''wooden desk'' ''gaming chair'' = 0.5 \<and>
   calculate_category_alignment ''wooden desk'' ''wireless earbuds'' = 0.5 \<and>
   calculate_category_alignment ''wooden desk'' ''gaming laptop'' = 0.3"
proof -
  have a: "\<forall>(c, ks) \<in> set categories. \<not> any_keyword_in ks ''gaming chair''"
    by (simp add: categories_def any_keyword_in_def)
  have b: "find_query_category categories ''wireless earbuds'' = Some ''audio''"
    by (simp add: categories_def any_keyword_in_def)
  have c: "find_query_category categories ''gaming laptop'' = Some ''laptop''"
    by (simp add: categories_def any_keyword_in_def)
  have d: "\<not> any_keyword_in (keywords_of ''audio'') ''wooden desk''"
      "\<not> any_keyword_in (keywords_of ''laptop'') ''wooden desk''"
      "\<not> any_keyword_in (keywords_of ''accessory'') ''wooden desk''"
    by (simp_all add: categories_def any_keyword_in_def keywords_of_def)
  show ?thesis
    using category_alignment_unclassified [where query = "''gaming chair''" and name = "''wooden desk''"] a
      category_alignment_unclassified [where query = "''wireless earbuds''" and c = "''audio''" and name = "''wooden desk''"] b
      category_alignment_unclassified [where query = "''gaming laptop''" and c = "''laptop''" and name = "''wooden desk''"] c d
    by simp
qed

text \<open>
  C10 as stated fails: the query "gaming laptop" has the category laptop, the name
  "wooden desk" contains neither a laptop keyword nor an accessory keyword, and the
  component is 0.3, not 0.5.
\<close>

theorem category_alignment_neutral_counterexample:
  "find_query_category categories ''gaming laptop'' = Some ''laptop'' \<and>
   \<not> any_keyword_in (keywords_of ''laptop'') ''wooden desk'' \<and>
   \<not> any_keyword_in (keywords_of ''accessory'') ''wooden desk'' \<and>
   calculate_category_alignment ''wooden desk'' ''gaming laptop'' \<noteq> 0.5"
  by (simp add: calculate_category_alignment_def categories_def any_keyword_in_def keywords_of_def)

subsection \<open>Price normalisation\<close>

lemma py_min_Min: "xs \<noteq> [] \<Longrightarrow> py_min xs = Min (set xs)"
proof (cases xs)
  case (Cons a as)
  then show ?thesis using Min.set_eq_fold [of a as] by (simp add: py_min_def)
qed simp

lemma py_max_Max: "xs \<noteq> [] \<Longrightarrow> py_max xs = Max (set xs)"
proof (cases xs)
  case (Cons a as)
  then show ?thesis using Max.set_eq_fold [of a as] by (simp add: py_max_def)
qed simp

lemma py_min_le: "x \<in> set xs \<Longrightarrow> py_min xs \<le> x"
proof -
  assume h: "x \<in> set xs"
  then have "xs \<noteq> []" by auto
  then have "py_min xs = Min (set xs)" by (rule py_min_Min)
  then show ?thesis using h by simp
qed

lemma py_max_ge: "x \<in> set xs \<Longrightarrow> x \<le> py_max xs"
proof -
  assume h: "x \<in> set xs"
  then have "xs \<noteq> []" by auto
  then have "py_max xs = Max (set xs)" by (rule py_max_Max)
  then show ?thesis using h by simp
qed

lemma length_normalize_price_score [simp]:
  "length (normalize_price_score prices) = length prices"
  by (simp add: normalize_price_score_def Let_def)

lemma remdups_one_iff:
  "length (remdups xs) = 1 \<longleftrightarrow> xs \<noteq> [] \<and> (\<forall>p \<in> set xs. \<forall>q \<in> set xs. p = q)"
proof -
  have "length (remdups xs) = card (set xs)"
    by (simp add: length_remdups_card_conv)
  moreover have "card (set xs) = 1 \<longleftrightarrow> xs \<noteq> [] \<and> (\<forall>p \<in> set xs. \<forall>q \<in> set xs. p = q)"
  proof
    assume "card (set xs) = 1"
    then obtain a where "set xs = {a}" by (auto simp: card_1_singleton_iff)
    then show "xs \<noteq> [] \<and> (\<forall>p \<in> set xs. \<forall>q \<in> set xs. p = q)" by auto
  next
    assume h: "xs \<noteq> [] \<and> (\<forall>p \<in> set xs. \<forall>q \<in> set xs. p = q)"
    then have "set xs = {hd xs}" by (cases xs) auto
    then show "card (set xs) = 1" by simp
  qed
  ultimately show ?thesis by simp
qed

lemma normalize_price_score_nth:
  assumes "i < length prices"
  shows "normalize_price_score prices ! i =
           (if length (remdups prices) = 1 \<or> py_max prices - py_min prices = 0 then 0.5
            else 1 - (prices ! i - py_min prices) / (py_max prices - py_min prices))"
  using assms by (auto simp: normalize_price_score_def Let_def)

text \<open>
  C8: price normalisation is antitone. For any two positions of the price list, the lower
  price gets a normalised score at least as high as the higher price's; when all prices of
  the list are equal (in particular when there is one price) every score is 0.5. The
  result has one score per price.
\<close>

theorem normalize_price_score_antitone:
  assumes "i < length prices" and "j < length prices"
  shows "length (normalize_price_score prices) = length prices \<and>
         (prices ! i \<le> prices ! j \<longrightarrow>
            normalize_price_score prices ! j \<le> normalize_price_score prices ! i) \<and>
         ((\<forall>p \<in> set prices. \<forall>q \<in> set prices. p = q) \<longrightarrow>
            normalize_price_score prices ! i = 0.5)"
proof (intro conjI impI)
  show "length (normalize_price_score prices) = length prices" by simp
next
  assume le: "prices ! i \<le> prices ! j"
  let ?mn = "py_min prices" and ?mx = "py_max prices"
  have "?mn \<le> prices ! i" using assms(1) by (simp add: py_min_le)
  moreover have "prices ! i \<le> ?mx" using assms(1) by (simp add: py_max_ge)
  ultimately have rng: "0 \<le> ?mx - ?mn" by simp
  have "(prices ! i - ?mn) / (?mx - ?mn) \<le> (prices ! j - ?mn) / (?mx - ?mn)"
    using le rng by (simp add: divide_right_mono)
  then show "normalize_price_score prices ! j \<le> normalize_price_score prices ! i"
    using assms by (simp add: normalize_price_score_nth)
next
  assume "\<forall>p \<in> set prices. \<forall>q \<in> set prices. p = q"
  moreover have "prices \<noteq> []" using assms(1) by auto
  ultimately have "length (remdups prices) = 1" by (simp only: remdups_one_iff) simp
  then show "normalize_price_score prices ! i = 0.5"
    using assms(1) by (simp add: normalize_price_score_nth)
qed

theorem normalize_price_score_antitone_witness:
  "normalize_price_score [499, 135900, 120000] ! 1 \<le> normalize_price_score [499, 135900, 120000] ! 0 \<and>
   normalize_price_score [499, 135900, 120000] = [1, 0, 15900 / 135401] \<and>
   normalize_price_score [250, 250] ! 1 = 0.5 \<and>
   normalize_price_score [250] ! 0 = 0.5"
  using normalize_price_score_antitone [of 0 "[499, 135900, 120000]" 1]
    normalize_price_score_antitone [of 1 "[250, 250]" 0]
    normalize_price_score_antitone [of 0 "[250]" 0]
  by (simp add: normalize_price_score_def py_min_def py_max_def)

subsection \<open>The library-style similarity\<close>

lemma lcs_length_le: "lcs_length a b \<le> length a \<and> lcs_length a b \<le> length b"
  by (induction a b rule: lcs_length.induct) auto

lemma lcs_length_same [simp]: "lcs_length a a = length a"
  by (induction a) auto

lemma round_half_even_le:
  assumes "2 * l \<le> s" and "0 < s"
  shows "round_half_even (200 * l) s \<le> 100"
proof -
  have q: "200 * l div s \<le> 100"
  proof -
    have "200 * l \<le> 100 * s" using assms(1) by simp
    then have "200 * l div s \<le> 100 * s div s" by (rule div_le_mono)
    then show ?thesis using assms(2) by simp
  qed
  show ?thesis
  proof (cases "200 * l div s = 100")
    case True
    have "200 * l div s * s \<le> 200 * l" by (rule div_times_less_eq_dividend)
    then have "100 * s \<le> 200 * l" using True by simp
    then have "200 * l = 100 * s" using assms(1) by simp
    then have "200 * l mod s = 100 * s mod s" by (rule arg_cong)
    then have "200 * l mod s = 0" by simp
    then show ?thesis using True assms(2) by (simp add: round_half_even_def Let_def)
  next
    case False
    then have "200 * l div s < 100" using q by simp
    then show ?thesis by (simp add: round_half_even_def Let_def)
  qed
qed

lemma indel_ratio_range: "0 \<le> indel_ratio a b \<and> indel_ratio a b \<le> 100"
proof (cases "a = [] \<or> b = []")
  case True
  then show ?thesis by (auto simp: indel_ratio_def)
next
  case False
  have "2 * lcs_length a b \<le> length a + length b"
    using lcs_length_le [of a b] by simp
  moreover have "0 < length a + length b" using False by simp
  ultimately have "round_half_even (200 * lcs_length a b) (length a + length b) \<le> 100"
    by (rule round_half_even_le)
  then show ?thesis using False by (simp add: indel_ratio_def)
qed

lemma round_half_even_exact: "0 < s \<Longrightarrow> round_half_even (100 * s) s = 100"
  by (simp add: round_half_even_def)

lemma indel_ratio_same: "a \<noteq> [] \<Longrightarrow> indel_ratio a a = 100"
proof -
  assume h: "a \<noteq> []"
  have "200 * lcs_length a a = 100 * (length a + length a)" by simp
  then show ?thesis
    using h round_half_even_exact [of "length a + length a"] by (simp add: indel_ratio_def)
qed

subsection \<open>Removing duplicates\<close>

lemma is_duplicate_iff:
  "is_duplicate ratio p es \<longleftrightarrow> (\<exists>e \<in> set es. duplicate_of ratio p e)"
  by (induction es) auto

lemma is_duplicate_append:
  "is_duplicate ratio p (xs @ ys) \<longleftrightarrow> is_duplicate ratio p xs \<or> is_duplicate ratio p ys"
  by (auto simp: is_duplicate_iff)

lemma no_residual_duplicates_snoc:
  "no_residual_duplicates ratio acc (ps @ [p]) \<longleftrightarrow>
     no_residual_duplicates ratio acc ps \<and> \<not> is_duplicate ratio p (acc @ ps)"
  by (induction ps arbitrary: acc) auto

lemma dedup_loop_no_residual:
  "no_residual_duplicates ratio [] unique_products \<Longrightarrow>
   no_residual_duplicates ratio [] (dedup_loop ratio unique_products ps)"
proof (induction ps arbitrary: unique_products)
  case Nil
  then show ?case by simp
next
  case (Cons p ps)
  show ?case
  proof (cases "is_duplicate ratio p unique_products")
    case True
    then show ?thesis using Cons by simp
  next
    case False
    then have "no_residual_duplicates ratio [] (unique_products @ [p])"
      using Cons.prems by (simp add: no_residual_duplicates_snoc)
    then show ?thesis using False Cons.IH by simp
  qed
qed

lemma dedup_loop_fixed:
  "no_residual_duplicates ratio acc ps \<Longrightarrow> dedup_loop ratio acc ps = acc @ ps"
  by (induction ps arbitrary: acc) auto

lemma no_residual_duplicates_nth:
  "no_residual_duplicates ratio acc ps \<Longrightarrow> i < j \<Longrightarrow> j < length ps \<Longrightarrow>
   \<not> duplicate_of ratio (ps ! j) (ps ! i)"
proof (induction ps arbitrary: acc i j rule: rev_induct)
  case Nil
  then show ?case by simp
next
  case (snoc p ps)
  from snoc.prems(1) have a: "no_residual_duplicates ratio acc ps"
    and b: "\<not> is_duplicate ratio p (acc @ ps)"
    by (simp_all add: no_residual_duplicates_snoc)
  show ?case
  proof (cases "j < length ps")
    case True
    then show ?thesis using snoc.IH [OF a snoc.prems(2)] snoc.prems(2) by (simp add: nth_append)
  next
    case False
    then have j: "j = length ps" using snoc.prems(3) by simp
    then have "ps ! i \<in> set (acc @ ps)" using snoc.prems(2) by simp
    then have "\<not> duplicate_of ratio p (ps ! i)" using b by (auto simp: is_duplicate_iff)
    then show ?thesis using j snoc.prems(2) by (simp add: nth_append)
  qed
qed

lemma duplicate_of_sym:
  assumes "\<forall>a b. ratio a b = ratio b a"
  shows "duplicate_of ratio p e = duplicate_of ratio e p"
proof -
  have "name_similarity ratio p e = name_similarity ratio e p"
    using assms by (simp add: name_similarity_def)
  moreover have "price_diff p e = price_diff e p"
    by (simp add: price_diff_def abs_minus_commute max.commute)
  ultimately show ?thesis by (auto simp: duplicate_of_def)
qed

lemma lcs_length_Nil [simp]: "lcs_length a [] = 0"
  by (cases a) simp_all

lemma lcs_length_sym: "lcs_length a b = lcs_length b a"
  by (induction a b rule: lcs_length.induct) (simp_all add: max.commute)

lemma indel_ratio_sym: "indel_ratio a b = indel_ratio b a"
  by (auto simp: indel_ratio_def lcs_length_sym [of a b] add.commute)

text \<open>
  C6: the deduplicator is idempotent. Applied to its own output, \<open>_remove_duplicates\<close>
  returns that output unchanged, and in the output no product is a duplicate, by the
  test of the loop, of a product before it. When the library's ratio is symmetric, the
  test is symmetric too and no two products of the output are duplicates in either order.
\<close>

theorem remove_duplicates_idempotent:
  "remove_duplicates ratio (remove_duplicates ratio products) = remove_duplicates ratio products \<and>
   (\<forall>i j. i < j \<and> j < length (remove_duplicates ratio products) \<longrightarrow>
      \<not> duplicate_of ratio (remove_duplicates ratio products ! j)
                            (remove_duplicates ratio products ! i)) \<and>
   ((\<forall>a b. ratio a b = ratio b a) \<longrightarrow>
      (\<forall>i j. i < length (remove_duplicates ratio products)
             \<and> j < length (remove_duplicates ratio products) \<and> i \<noteq> j \<longrightarrow>
         \<not> duplicate_of ratio (remove_duplicates ratio products ! i)
                               (remove_duplicates ratio products ! j)))"
proof -
  let ?out = "remove_duplicates ratio products"
  have inv: "no_residual_duplicates ratio [] ?out"
    unfolding remove_duplicates_def by (rule dedup_loop_no_residual) simp
  then have "dedup_loop ratio [] ?out = [] @ ?out"
    by (rule dedup_loop_fixed)
  then have idem: "remove_duplicates ratio ?out = ?out"
    by (simp add: remove_duplicates_def)
  have later: "\<not> duplicate_of ratio (?out ! j) (?out ! i)" if "i < j" and "j < length ?out" for i j
    using no_residual_duplicates_nth [OF inv that] .
  have either: "\<not> duplicate_of ratio (?out ! i) (?out ! j)"
    if sym: "\<forall>a b. ratio a b = ratio b a"
      and "i < length ?out" and "j < length ?out" and "i \<noteq> j" for i j
  proof (cases "i < j")
    case True
    then have "\<not> duplicate_of ratio (?out ! j) (?out ! i)" using that(3) by (rule later)
    then show ?thesis using duplicate_of_sym [OF sym] by blast
  next
    case False
    then have "j < i" using that(4) by simp
    then show ?thesis using that(2) by (rule later)
  qed
  show ?thesis using idem later either by blast
qed

theorem remove_duplicates_idempotent_witness:
  "remove_duplicates indel_ratio
     [\<lparr>link = ''u1'', price = 100, currency = ''INR'', product_name = ''Mi Band'', source = ''Flipkart''\<rparr>,
      \<lparr>link = ''u2'', price = 102, currency = ''INR'', product_name = ''mi band'', source = ''Snapdeal''\<rparr>,
      \<lparr>link = ''u3'', price = 108, currency = ''INR'', product_name = ''Mi Band'', source = ''Shopsy''\<rparr>]
   = [\<lparr>link = ''u1'', price = 100, currency = ''INR'', product_name = ''Mi Band'', source = ''Flipkart''\<rparr>,
      \<lparr>link = ''u3'', price = 108, currency = ''INR'', product_name = ''Mi Band'', source = ''Shopsy''\<rparr>] \<and>
   remove_duplicates indel_ratio
     [\<lparr>link = ''u1'', price = 100, currency = ''INR'', product_name = ''Mi Band'', source = ''Flipkart''\<rparr>,
      \<lparr>link = ''u3'', price = 108, currency = ''INR'', product_name = ''Mi Band'', source = ''Shopsy''\<rparr>]
   = [\<lparr>link = ''u1'', price = 100, currency = ''INR'', product_name = ''Mi Band'', source = ''Flipkart''\<rparr>,
      \<lparr>link = ''u3'', price = 108, currency = ''INR'', product_name = ''Mi Band'', source = ''Shopsy''\<rparr>] \<and>
   \<not> duplicate_of indel_ratio
       \<lparr>link = ''u3'', price = 108, currency = ''INR'', product_name = ''Mi Band'', source = ''Shopsy''\<rparr>
       \<lparr>link = ''u1'', price = 100, currency = ''INR'', product_name = ''Mi Band'', source = ''Flipkart''\<rparr> \<and>
   \<not> duplicate_of indel_ratio
       \<lparr>link = ''u1'', price = 100, currency = ''INR'', product_name = ''Mi Band'', source = ''Flipkart''\<rparr>
       \<lparr>link = ''u3'', price = 108, currency = ''INR'', product_name = ''Mi Band'', source = ''Shopsy''\<rparr>"
proof -
  let ?a = "\<lparr>link = ''u1'', price = 100, currency = ''INR'', product_name = ''Mi Band'', source = ''Flipkart''\<rparr>"
  let ?b = "\<lparr>link = ''u2'', price = 102, currency = ''INR'', product_name = ''mi band'', source = ''Snapdeal''\<rparr>"
  let ?c = "\<lparr>link = ''u3'', price = 108, currency = ''INR'', product_name = ''Mi Band'', source = ''Shopsy''\<rparr>"
  have low: "lower ''Mi Band'' = ''mi band''" "lower ''mi band'' = ''mi band''"
    by (simp_all add: lower_def lower_char_def upper_letters_def lower_letters_def)
  have out: "remove_duplicates indel_ratio [?a, ?b, ?c] = [?a, ?c]"
    by (simp add: remove_duplicates_def duplicate_of_def name_similarity_def price_diff_def
          low indel_ratio_same)
  note idem = remove_duplicates_idempotent [of indel_ratio "[?a, ?b, ?c]", unfolded out]
  from idem have fixed: "remove_duplicates indel_ratio [?a, ?c] = [?a, ?c]"
    by (rule conjunct1)
  from idem have "(0::nat) < 1 \<and> 1 < length [?a, ?c] \<longrightarrow>
      \<not> duplicate_of indel_ratio ([?a, ?c] ! 1) ([?a, ?c] ! 0)"
    by blast
  then have later: "\<not> duplicate_of indel_ratio ?c ?a" by simp
  have sym: "\<forall>a b. indel_ratio a b = indel_ratio b a" using indel_ratio_sym by blast
  from idem sym have "(0::nat) < length [?a, ?c] \<and> 1 < length [?a, ?c] \<and> (0::nat) \<noteq> 1 \<longrightarrow>
      \<not> duplicate_of indel_ratio ([?a, ?c] ! 0) ([?a, ?c] ! 1)"
    by blast
  then have earlier: "\<not> duplicate_of indel_ratio ?a ?c" by simp
  from out fixed later earlier show ?thesis by simp
qed


lemma remove_duplicates_pair:
  "remove_duplicates ratio [existing, p] =
     (if duplicate_of ratio p existing then [existing] else [existing, p])"
  by (simp add: remove_duplicates_def)

lemma price_diff_two_percent:
  assumes "1 \<le> price existing" and "price p = price existing * 1.02"
  shows "price_diff p existing < 0.05"
proof -
  let ?e = "price existing"
  have m: "max (max (price p) ?e) 1 = ?e * 1.02" using assms by (simp add: max_def)
  have d: "\<bar>price p - ?e\<bar> = ?e * 0.02" using assms by simp
  have "price_diff p existing = \<bar>price p - ?e\<bar> / max (max (price p) ?e) 1"
    by (simp only: price_diff_def)
  also have "\<dots> = (?e * 0.02) / (?e * 1.02)" by (simp only: m d)
  also have "\<dots> = 0.02 / 1.02" using assms(1) by simp
  finally show ?thesis by simp
qed

lemma price_diff_eight_percent:
  assumes "1 \<le> price existing" and "price p = price existing * 1.08"
  shows "\<not> price_diff p existing < 0.05"
proof -
  let ?e = "price existing"
  have m: "max (max (price p) ?e) 1 = ?e * 1.08" using assms by (simp add: max_def)
  have d: "\<bar>price p - ?e\<bar> = ?e * 0.08" using assms by simp
  have "price_diff p existing = \<bar>price p - ?e\<bar> / max (max (price p) ?e) 1"
    by (simp only: price_diff_def)
  also have "\<dots> = (?e * 0.08) / (?e * 1.08)" by (simp only: m d)
  also have "\<dots> = 0.08 / 1.08" using assms(1) by simp
  finally show ?thesis by simp
qed

text \<open>
  C5: for two listings with the same currency, the test of the deduplicator holds exactly
  when the name similarity exceeds 90 and the relative price difference
  \<open>|p1 - p2| / max(p1, p2, 1)\<close> is below 0.05, and the deduplicator keeps of the pair
  \<open>existing, p\<close> only \<open>existing\<close> exactly when the test holds. In particular, for identical
  names whose similarity exceeds 90 (the library gives identical non-empty names 100): a
  relative price difference of 2% collapses the pair and one of 8% keeps both; and for
  prices of at least 1, a price 2% above the other collapses the pair and a price 8% above
  keeps both.
\<close>

theorem duplicate_same_currency:
  assumes "currency p = currency existing"
  shows "(duplicate_of ratio p existing \<longleftrightarrow>
            90 < name_similarity ratio p existing \<and> price_diff p existing < 0.05) \<and>
         remove_duplicates ratio [existing, p] =
           (if 90 < name_similarity ratio p existing \<and> price_diff p existing < 0.05
            then [existing] else [existing, p]) \<and>
         (product_name p = product_name existing
            \<and> 90 < ratio (lower (product_name p)) (lower (product_name p)) \<longrightarrow>
            (price_diff p existing = 0.02 \<longrightarrow> remove_duplicates ratio [existing, p] = [existing]) \<and>
            (price_diff p existing = 0.08 \<longrightarrow> remove_duplicates ratio [existing, p] = [existing, p]) \<and>
            (1 \<le> price existing \<and> price p = price existing * 1.02 \<longrightarrow>
               remove_duplicates ratio [existing, p] = [existing]) \<and>
            (1 \<le> price existing \<and> price p = price existing * 1.08 \<longrightarrow>
               remove_duplicates ratio [existing, p] = [existing, p]))"
proof -
  have test: "duplicate_of ratio p existing \<longleftrightarrow>
      90 < name_similarity ratio p existing \<and> price_diff p existing < 0.05"
    using assms by (simp add: duplicate_of_def)
  have pair: "remove_duplicates ratio [existing, p] =
      (if 90 < name_similarity ratio p existing \<and> price_diff p existing < 0.05
       then [existing] else [existing, p])"
    by (simp add: remove_duplicates_pair test)
  have scenario: "(price_diff p existing = 0.02 \<longrightarrow> remove_duplicates ratio [existing, p] = [existing]) \<and>
      (price_diff p existing = 0.08 \<longrightarrow> remove_duplicates ratio [existing, p] = [existing, p]) \<and>
      (1 \<le> price existing \<and> price p = price existing * 1.02 \<longrightarrow>
         remove_duplicates ratio [existing, p] = [existing]) \<and>
      (1 \<le> price existing \<and> price p = price existing * 1.08 \<longrightarrow>
         remove_duplicates ratio [existing, p] = [existing, p])"
    if same: "product_name p = product_name existing"
      and sim: "90 < ratio (lower (product_name p)) (lower (product_name p))"
  proof -
    have ns: "90 < name_similarity ratio p existing"
      using same sim by (simp add: name_similarity_def)
    show ?thesis
      using ns price_diff_two_percent [of existing p] price_diff_eight_percent [of existing p]
      by (auto simp: pair)
  qed
  show ?thesis using test pair scenario by blast
qed

theorem duplicate_same_currency_witness:
  "remove_duplicates indel_ratio
     [\<lparr>link = ''u1'', price = 1000, currency = ''INR'', product_name = ''Mi Band'', source = ''Flipkart''\<rparr>,
      \<lparr>link = ''u2'', price = 1020, currency = ''INR'', product_name = ''Mi Band'', source = ''Snapdeal''\<rparr>]
   = [\<lparr>link = ''u1'', price = 1000, currency = ''INR'', product_name = ''Mi Band'', source = ''Flipkart''\<rparr>] \<and>
   remove_duplicates indel_ratio
     [\<lparr>link = ''u1'', price = 1000, currency = ''INR'', product_name = ''Mi Band'', source = ''Flipkart''\<rparr>,
      \<lparr>link = ''u2'', price = 1080, currency = ''INR'', product_name = ''Mi Band'', source = ''Snapdeal''\<rparr>]
   = [\<lparr>link = ''u1'', price = 1000, currency = ''INR'', product_name = ''Mi Band'', source = ''Flipkart''\<rparr>,
      \<lparr>link = ''u2'', price = 1080, currency = ''INR'', product_name = ''Mi Band'', source = ''Snapdeal''\<rparr>]"
proof -
  let ?a = "\<lparr>link = ''u1'', price = 1000, currency = ''INR'', product_name = ''Mi Band'', source = ''Flipkart''\<rparr>"
  let ?b = "\<lparr>link = ''u2'', price = 1020, currency = ''INR'', product_name = ''Mi Band'', source = ''Snapdeal''\<rparr>"
  let ?c = "\<lparr>link = ''u2'', price = 1080, currency = ''INR'', product_name = ''Mi Band'', source = ''Snapdeal''\<rparr>"
  have low: "lower ''Mi Band'' = ''mi band''"
    by (simp add: lower_def lower_char_def upper_letters_def lower_letters_def)
  have sim: "90 < indel_ratio (lower ''Mi Band'') (lower ''Mi Band'')"
    by (simp add: low indel_ratio_same)
  show ?thesis
    using duplicate_same_currency [of ?b ?a indel_ratio] duplicate_same_currency [of ?c ?a indel_ratio] sim
    by (simp add: name_similarity_def price_diff_def low indel_ratio_same)
qed

text \<open>
  C9, as the code has it: the name similarity of the deduplicator is the library's ratio
  of the two lower-cased names, so it is case-insensitive. Changing the letter case of
  either name changes neither the similarity nor, for listings with the same prices and
  currencies, the duplicate decision.
\<close>

theorem name_similarity_case_insensitive:
  assumes "lower (product_name p') = lower (product_name p)"
    and "lower (product_name e') = lower (product_name e)"
  shows "name_similarity ratio p' e' = name_similarity ratio p e \<and>
         (price p' = price p \<and> currency p' = currency p \<and>
          price e' = price e \<and> currency e' = currency e \<longrightarrow>
            duplicate_of ratio p' e' = duplicate_of ratio p e)"
  using assms by (simp add: name_similarity_def duplicate_of_def price_diff_def)

theorem name_similarity_case_insensitive_witness:
  "name_similarity indel_ratio
     \<lparr>link = ''u1'', price = 1000, currency = ''INR'', product_name = ''MI BAND'', source = ''Flipkart''\<rparr>
     \<lparr>link = ''u2'', price = 1020, currency = ''INR'', product_name = ''mi band'', source = ''Snapdeal''\<rparr>
   = name_similarity indel_ratio
     \<lparr>link = ''u1'', price = 1000, currency = ''INR'', product_name = ''Mi Band'', source = ''Flipkart''\<rparr>
     \<lparr>link = ''u2'', price = 1020, currency = ''INR'', product_name = ''Mi Band'', source = ''Snapdeal''\<rparr> \<and>
   duplicate_of indel_ratio
     \<lparr>link = ''u1'', price = 1000, currency = ''INR'', product_name = ''MI BAND'', source = ''Flipkart''\<rparr>
     \<lparr>link = ''u2'', price = 1020, currency = ''INR'', product_name = ''mi band'', source = ''Snapdeal''\<rparr>
   = duplicate_of indel_ratio
     \<lparr>link = ''u1'', price = 1000, currency = ''INR'', product_name = ''Mi Band'', source = ''Flipkart''\<rparr>
     \<lparr>link = ''u2'', price = 1020, currency = ''INR'', product_name = ''Mi Band'', source = ''Snapdeal''\<rparr>"
proof -
  have low: "lower ''MI BAND'' = lower ''Mi Band''" "lower ''mi band'' = lower ''Mi Band''"
    by (simp_all add: lower_def lower_char_def upper_letters_def lower_letters_def)
  show ?thesis
    using name_similarity_case_insensitive
      [of "\<lparr>link = ''u1'', price = 1000, currency = ''INR'', product_name = ''MI BAND'', source = ''Flipkart''\<rparr>"
          "\<lparr>link = ''u1'', price = 1000, currency = ''INR'', product_name = ''Mi Band'', source = ''Flipkart''\<rparr>"
          "\<lparr>link = ''u2'', price = 1020, currency = ''INR'', product_name = ''mi band'', source = ''Snapdeal''\<rparr>"
          "\<lparr>link = ''u2'', price = 1020, currency = ''INR'', product_name = ''Mi Band'', source = ''Snapdeal''\<rparr>"
          indel_ratio]
      low
    by simp
qed

text \<open>
  C9 as stated fails: the names "lg tv" and "tv lg" have the same tokens in another order.
  Against the name "lg tv" the first has similarity 100 and the second 40, and the
  deduplicator collapses the first pair of listings and keeps the second.
\<close>

theorem name_similarity_token_order_counterexample:
  "mset (py_split ''tv lg'') = mset (py_split ''lg tv'') \<and>
   name_similarity indel_ratio
     \<lparr>link = ''u2'', price = 1000, currency = ''INR'', product_name = ''lg tv'', source = ''Snapdeal''\<rparr>
     \<lparr>link = ''u1'', price = 1000, currency = ''INR'', product_name = ''lg tv'', source = ''Flipkart''\<rparr> = 100 \<and>
   name_similarity indel_ratio
     \<lparr>link = ''u2'', price = 1000, currency = ''INR'', product_name = ''tv lg'', source = ''Snapdeal''\<rparr>
     \<lparr>link = ''u1'', price = 1000, currency = ''INR'', product_name = ''lg tv'', source = ''Flipkart''\<rparr> = 40 \<and>
   remove_duplicates indel_ratio
     [\<lparr>link = ''u1'', price = 1000, currency = ''INR'', product_name = ''lg tv'', source = ''Flipkart''\<rparr>,
      \<lparr>link = ''u2'', price = 1000, currency = ''INR'', product_name = ''lg tv'', source = ''Snapdeal''\<rparr>]
   = [\<lparr>link = ''u1'', price = 1000, currency = ''INR'', product_name = ''lg tv'', source = ''Flipkart''\<rparr>] \<and>
   remove_duplicates indel_ratio
     [\<lparr>link = ''u1'', price = 1000, currency = ''INR'', product_name = ''lg tv'', source = ''Flipkart''\<rparr>,
      \<lparr>link = ''u2'', price = 1000, currency = ''INR'', product_name = ''tv lg'', source = ''Snapdeal''\<rparr>]
   = [\<lparr>link = ''u1'', price = 1000, currency = ''INR'', product_name = ''lg tv'', source = ''Flipkart''\<rparr>,
      \<lparr>link = ''u2'', price = 1000, currency = ''INR'', product_name = ''tv lg'', source = ''Snapdeal''\<rparr>]"
proof -
  have low: "lower ''lg tv'' = ''lg tv''" "lower ''tv lg'' = ''tv lg''"
    by (simp_all add: lower_def lower_char_def upper_letters_def lower_letters_def)
  have tok: "py_split ''tv lg'' = [''tv'', ''lg'']" "py_split ''lg tv'' = [''lg'', ''tv'']"
    by (simp_all add: py_split_def runs_def is_space_def)
  have r: "indel_ratio ''lg tv'' ''lg tv'' = 100" "indel_ratio ''tv lg'' ''lg tv'' = 40"
    by (simp_all add: indel_ratio_def round_half_even_def)
  show ?thesis
    by (simp add: tok remove_duplicates_def duplicate_of_def name_similarity_def price_diff_def low r)
qed

subsection \<open>Relevance\<close>

lemma fuzzy_score_range:
  assumes "\<forall>a b. 0 \<le> tsr a b \<and> tsr a b \<le> 100"
  shows "0 \<le> fuzzy_score tsr a b \<and> fuzzy_score tsr a b \<le> 1"
proof -
  have "0 \<le> tsr a b" and "tsr a b \<le> 100" using assms by auto
  then have "0 \<le> real_of_int (tsr a b)" and "real_of_int (tsr a b) \<le> 100" by simp_all
  then show ?thesis by (simp add: fuzzy_score_def)
qed

lemma exact_score_range: "0 \<le> exact_score a b \<and> exact_score a b \<le> 1"
  by (simp add: exact_score_def Let_def min_def)

lemma partial_score_range: "0 \<le> partial_score a b \<and> partial_score a b \<le> 1"
  by (simp add: partial_score_def Let_def min_def)

lemma category_alignment_range:
  "0 \<le> calculate_category_alignment a b \<and> calculate_category_alignment a b \<le> 1"
  by (simp add: calculate_category_alignment_def Let_def split: option.split)

lemma calculate_relevance_score_sum:
  "calculate_relevance_score tsr name q =
     fuzzy_score tsr (lower name) (lower q) * 0.25
     + exact_score (lower name) (lower q) * 0.40
     + partial_score (lower name) (lower q) * 0.10
     + calculate_category_alignment (lower name) (lower q) * 0.25"
  by (simp add: calculate_relevance_score_def Let_def)

lemma calculate_relevance_score_range:
  assumes "\<forall>a b. 0 \<le> tsr a b \<and> tsr a b \<le> 100"
  shows "0 \<le> calculate_relevance_score tsr name q \<and> calculate_relevance_score tsr name q \<le> 1"
proof -
  let ?f = "fuzzy_score tsr (lower name) (lower q)"
  let ?e = "exact_score (lower name) (lower q)"
  let ?p = "partial_score (lower name) (lower q)"
  let ?c = "calculate_category_alignment (lower name) (lower q)"
  have "0 \<le> ?f \<and> ?f \<le> 1" using assms by (rule fuzzy_score_range)
  moreover have "0 \<le> ?e \<and> ?e \<le> 1" by (rule exact_score_range)
  moreover have "0 \<le> ?p \<and> ?p \<le> 1" by (rule partial_score_range)
  moreover have "0 \<le> ?c \<and> ?c \<le> 1" by (rule category_alignment_range)
  ultimately show ?thesis by (simp add: calculate_relevance_score_sum)
qed

subsection \<open>The criteria matrix\<close>

lemma has_exact_matches_iff:
  "has_exact_matches products q \<longleftrightarrow>
     (\<exists>p \<in> set products. is_exact_model_match (lower (productName p)) (lower q))"
  by (simp add: has_exact_matches_def list_ex_iff)

lemma length_criteria_matrix [simp]:
  "length (criteria_matrix tsr products q) = length products"
  by (simp add: criteria_matrix_def Let_def)

lemma apply_penalties_fields [simp]:
  "price_raw (apply_penalties q c) = price_raw c"
  "source_reliability (apply_penalties q c) = source_reliability c"
  by (simp_all add: apply_penalties_def Let_def)

lemma apply_penalties_relevance:
  "relevance (apply_penalties q c) =
     relevance c * (if \<not> has_exact_match c then 0.8 else 1)
       * (if is_accessory c \<and> \<not> is_searching_for_accessory q then 0.3 else 1)"
  by (simp add: apply_penalties_def Let_def)

lemma criteria_matrix_nth:
  assumes "i < length products"
  shows "criteria_matrix tsr products q ! i =
           (if has_exact_matches products q
            then apply_penalties q (criteria_row tsr q (products ! i))
            else criteria_row tsr q (products ! i))"
  using assms by (simp add: criteria_matrix_def Let_def)

lemma criteria_matrix_prices:
  "map price_raw (criteria_matrix tsr products q) = map d_price products"
  by (simp add: criteria_matrix_def Let_def criteria_row_def)

lemma criteria_matrix_reliability:
  "i < length products \<Longrightarrow>
   source_reliability (criteria_matrix tsr products q ! i) = reliability_of (d_source (products ! i))"
  by (simp add: criteria_matrix_nth criteria_row_def)

lemma criteria_matrix_relevance:
  assumes "i < length products"
  shows "relevance (criteria_matrix tsr products q ! i) =
     calculate_relevance_score tsr (productName (products ! i)) q
       * (if has_exact_matches products q
             \<and> \<not> is_exact_model_match (lower (productName (products ! i))) (lower q)
          then 0.8 else 1)
       * (if has_exact_matches products q
             \<and> is_accessory_product (lower (productName (products ! i)))
             \<and> \<not> is_searching_for_accessory q
          then 0.3 else 1)"
  using assms by (simp add: criteria_matrix_nth apply_penalties_relevance criteria_row_def)

subsection \<open>Scoring and sorting\<close>

lemma length_scored_products [simp]:
  "length (scored_products tsr products q) = length products"
  by (simp add: scored_products_def Let_def)

lemma scored_products_nth:
  assumes "i < length products"
  shows "scored_products tsr products q ! i =
     with_scores (products ! i)
       (relevance (criteria_matrix tsr products q ! i) * 0.75
        + normalize_price_score (map d_price products) ! i * 0.20
        + reliability_of (d_source (products ! i)) * 0.05)
       (relevance (criteria_matrix tsr products q ! i))"
  using assms
  by (simp add: scored_products_def Let_def criteria_matrix_prices criteria_matrix_reliability
        weight_relevance_def weight_price_def weight_source_reliability_def)

lemma base_of_with_scores [simp]: "base_of (with_scores p s r) = p"
  by (simp add: base_of_def with_scores_def)

lemma with_scores_fields [simp]:
  "mcdm_score (with_scores p s r) = s"
  "relevance_score (with_scores p s r) = r"
  "productName (with_scores p s r) = productName p"
  "d_source (with_scores p s r) = d_source p"
  "d_price (with_scores p s r) = d_price p"
  by (simp_all add: with_scores_def)

lemma map_base_of_scored_products:
  "map base_of (scored_products tsr products q) = products"
  by (rule nth_equalityI) (simp_all add: scored_products_nth)

lemma calculate_mcdm_scores_sort:
  "calculate_mcdm_scores tsr products q =
     sort_descending mcdm_score (scored_products tsr products q)"
  by (simp add: calculate_mcdm_scores_def scored_products_def sort_descending_def Let_def)

lemma mset_sort_descending [simp]: "mset (sort_descending key xs) = mset xs"
  by (simp add: sort_descending_def)

lemma set_sort_descending [simp]: "set (sort_descending key xs) = set xs"
  by (simp add: sort_descending_def)

lemma sorted_sort_descending:
  "sorted_wrt (\<lambda>a b. key b \<le> key a) (sort_descending key xs)"
proof -
  have "sorted (map (\<lambda>x. - key x) (sort_key (\<lambda>x. - key x) xs))" by (rule sorted_sort_key)
  then show ?thesis by (simp add: sort_descending_def sorted_map)
qed

lemma calculate_mcdm_scores_sorted:
  "sorted_wrt (\<lambda>a b. mcdm_score b \<le> mcdm_score a) (calculate_mcdm_scores tsr products q)"
  by (simp add: calculate_mcdm_scores_sort sorted_sort_descending)

lemma calculate_mcdm_scores_elem:
  assumes "x \<in> set (calculate_mcdm_scores tsr products q)"
  shows "\<exists>i < length products. x = scored_products tsr products q ! i"
proof -
  from assms have "x \<in> set (scored_products tsr products q)"
    by (simp add: calculate_mcdm_scores_sort)
  then obtain i where "i < length (scored_products tsr products q)"
    and "scored_products tsr products q ! i = x"
    by (auto simp: in_set_conv_nth)
  then show ?thesis by auto
qed


lemma reliability_of_table:
  "(s, r) \<in> set source_reliability_table \<Longrightarrow> reliability_of s = r"
proof -
  assume h: "(s, r) \<in> set source_reliability_table"
  have "distinct (map fst source_reliability_table)"
    by (simp add: source_reliability_table_def)
  then have "map_of source_reliability_table s = Some r" using h by (rule map_of_is_SomeI)
  then show ?thesis by (simp add: reliability_of_def)
qed

lemma reliability_of_unknown:
  "s \<notin> fst ` set source_reliability_table \<Longrightarrow> reliability_of s = 0.5"
  by (simp add: reliability_of_def map_of_eq_None_iff [THEN iffD2])

text \<open>
  C1: \<open>calculate_mcdm_scores\<close> returns the products, each once and with its two scores
  added, sorted by descending composite score. The composite score of a product is its
  adjusted relevance (the relevance of its row of the criteria matrix after the second
  pass, which is also stored as \<open>relevance_score\<close>) times 0.75, plus its normalised price
  times 0.20, plus the reliability of its source times 0.05. The reliability is the value
  of the table for a source in the table and 0.5 for any other source.
\<close>

theorem calculate_mcdm_scores_composite:
  "sorted_wrt (\<lambda>a b. mcdm_score b \<le> mcdm_score a) (calculate_mcdm_scores tsr products q) \<and>
   mset (map base_of (calculate_mcdm_scores tsr products q)) = mset products \<and>
   (\<forall>x \<in> set (calculate_mcdm_scores tsr products q). \<exists>i < length products.
      base_of x = products ! i \<and>
      relevance_score x = relevance (criteria_matrix tsr products q ! i) \<and>
      mcdm_score x = relevance (criteria_matrix tsr products q ! i) * 0.75
                     + normalize_price_score (map d_price products) ! i * 0.20
                     + reliability_of (d_source (products ! i)) * 0.05) \<and>
   (\<forall>s r. (s, r) \<in> set source_reliability_table \<longrightarrow> reliability_of s = r) \<and>
   (\<forall>s. s \<notin> fst ` set source_reliability_table \<longrightarrow> reliability_of s = 0.5)"
proof (intro conjI ballI allI impI)
  show "sorted_wrt (\<lambda>a b. mcdm_score b \<le> mcdm_score a) (calculate_mcdm_scores tsr products q)"
    by (rule calculate_mcdm_scores_sorted)
next
  have "mset (map base_of (calculate_mcdm_scores tsr products q))
          = image_mset base_of (mset (scored_products tsr products q))"
    by (simp add: calculate_mcdm_scores_sort)
  also have "\<dots> = mset (map base_of (scored_products tsr products q))" by simp
  also have "\<dots> = mset products" by (simp only: map_base_of_scored_products)
  finally show "mset (map base_of (calculate_mcdm_scores tsr products q)) = mset products" .
next
  fix x
  assume "x \<in> set (calculate_mcdm_scores tsr products q)"
  then obtain i where i: "i < length products" and x: "x = scored_products tsr products q ! i"
    using calculate_mcdm_scores_elem by blast
  have "base_of x = products ! i \<and>
      relevance_score x = relevance (criteria_matrix tsr products q ! i) \<and>
      mcdm_score x = relevance (criteria_matrix tsr products q ! i) * 0.75
                     + normalize_price_score (map d_price products) ! i * 0.20
                     + reliability_of (d_source (products ! i)) * 0.05"
    using i by (simp add: x scored_products_nth)
  then show "\<exists>i < length products.
      base_of x = products ! i \<and>
      relevance_score x = relevance (criteria_matrix tsr products q ! i) \<and>
      mcdm_score x = relevance (criteria_matrix tsr products q ! i) * 0.75
                     + normalize_price_score (map d_price products) ! i * 0.20
                     + reliability_of (d_source (products ! i)) * 0.05"
    using i by blast
next
  fix s r
  assume "(s, r) \<in> set source_reliability_table"
  then show "reliability_of s = r" by (rule reliability_of_table)
next
  fix s
  assume "s \<notin> fst ` set source_reliability_table"
  then show "reliability_of s = 0.5" by (rule reliability_of_unknown)
qed

text \<open>
  C4: the second pass runs exactly when some product of the list is an exact model match
  for the query. Then the relevance of every product that is not an exact match is
  multiplied by 0.8, and the relevance of every accessory product, when the query is not an
  accessory query, is multiplied by 0.3 as well; when no product is an exact match every
  relevance is the one \<open>calculate_relevance_score\<close> returned. This is the relevance of the
  rows of the criteria matrix and the \<open>relevance_score\<close> stored in the result.
\<close>

theorem contextual_adjustments:
  "(has_exact_matches products q \<longleftrightarrow>
      (\<exists>p \<in> set products. is_exact_model_match (lower (productName p)) (lower q))) \<and>
   (\<forall>x \<in> set (calculate_mcdm_scores tsr products q).
      relevance_score x =
        calculate_relevance_score tsr (productName x) q
          * (if has_exact_matches products q
                \<and> \<not> is_exact_model_match (lower (productName x)) (lower q)
             then 0.8 else 1)
          * (if has_exact_matches products q
                \<and> is_accessory_product (lower (productName x))
                \<and> \<not> is_searching_for_accessory q
             then 0.3 else 1)) \<and>
   (\<not> has_exact_matches products q \<longrightarrow>
      (\<forall>x \<in> set (calculate_mcdm_scores tsr products q).
         relevance_score x = calculate_relevance_score tsr (productName x) q))"
proof -
  have adj: "relevance_score x =
        calculate_relevance_score tsr (productName x) q
          * (if has_exact_matches products q
                \<and> \<not> is_exact_model_match (lower (productName x)) (lower q)
             then 0.8 else 1)
          * (if has_exact_matches products q
                \<and> is_accessory_product (lower (productName x))
                \<and> \<not> is_searching_for_accessory q
             then 0.3 else 1)"
    if "x \<in> set (calculate_mcdm_scores tsr products q)" for x
  proof -
    from that obtain i where i: "i < length products"
      and x: "x = scored_products tsr products q ! i"
      using calculate_mcdm_scores_elem by blast
    have "relevance_score x = relevance (criteria_matrix tsr products q ! i)"
      and "productName x = productName (products ! i)"
      using i by (simp_all add: x scored_products_nth)
    then show ?thesis using i by (simp only: criteria_matrix_relevance)
  qed
  then have "\<not> has_exact_matches products q \<longrightarrow>
      (\<forall>x \<in> set (calculate_mcdm_scores tsr products q).
         relevance_score x = calculate_relevance_score tsr (productName x) q)"
    by simp
  with adj show ?thesis by (simp only: has_exact_matches_iff) blast
qed

text \<open>
  C3: when the library's token-sort ratio lies between 0 and 100, the relevance score
  lies between 0 and 1. It is the sum of the four components weighted 0.25, 0.40, 0.10
  and 0.25, and each component lies between 0 and 1 (the exact coverage with its bonus of
  0.5 is capped at 1). The relevance stored in the result of \<open>calculate_mcdm_scores\<close>, after
  the contextual adjustments, is never above the relevance score of the product, and not
  below 0.
\<close>

theorem relevance_score_bounds:
  assumes "\<forall>a b. 0 \<le> tsr a b \<and> tsr a b \<le> 100"
  shows "0 \<le> calculate_relevance_score tsr name q \<and>
         calculate_relevance_score tsr name q \<le> 1 \<and>
         calculate_relevance_score tsr name q =
           fuzzy_score tsr (lower name) (lower q) * 0.25
           + exact_score (lower name) (lower q) * 0.40
           + partial_score (lower name) (lower q) * 0.10
           + calculate_category_alignment (lower name) (lower q) * 0.25 \<and>
         0 \<le> fuzzy_score tsr (lower name) (lower q) \<and>
         fuzzy_score tsr (lower name) (lower q) \<le> 1 \<and>
         0 \<le> exact_score (lower name) (lower q) \<and>
         exact_score (lower name) (lower q) \<le> 1 \<and>
         0 \<le> partial_score (lower name) (lower q) \<and>
         partial_score (lower name) (lower q) \<le> 1 \<and>
         0 \<le> calculate_category_alignment (lower name) (lower q) \<and>
         calculate_category_alignment (lower name) (lower q) \<le> 1 \<and>
         (\<forall>x \<in> set (calculate_mcdm_scores tsr products q).
            0 \<le> relevance_score x \<and>
            relevance_score x \<le> calculate_relevance_score tsr (productName x) q)"
proof -
  have adj: "0 \<le> relevance_score x \<and>
      relevance_score x \<le> calculate_relevance_score tsr (productName x) q"
    if "x \<in> set (calculate_mcdm_scores tsr products q)" for x
  proof -
    from that obtain i where i: "i < length products"
      and x: "x = scored_products tsr products q ! i"
      using calculate_mcdm_scores_elem by blast
    let ?r = "calculate_relevance_score tsr (productName (products ! i)) q"
    have r: "0 \<le> ?r" using calculate_relevance_score_range [OF assms] by blast
    have "relevance_score x = relevance (criteria_matrix tsr products q ! i)"
      and n: "productName x = productName (products ! i)"
      using i by (simp_all add: x scored_products_nth)
    then have "relevance_score x = ?r \<or> relevance_score x = ?r * 0.8
        \<or> relevance_score x = ?r * 0.3 \<or> relevance_score x = ?r * 0.8 * 0.3"
      using i by (simp add: criteria_matrix_relevance)
    then show ?thesis using r n by auto
  qed
  show ?thesis
    using calculate_relevance_score_range [OF assms, of name q]
      fuzzy_score_range [OF assms, of "lower name" "lower q"]
      exact_score_range [of "lower name" "lower q"]
      partial_score_range [of "lower name" "lower q"]
      category_alignment_range [of "lower name" "lower q"]
      calculate_relevance_score_sum [of tsr name q] adj
    by blast
qed

subsection \<open>The example ranking\<close>

lemma example_ranking:
  "calculate_mcdm_scores indel_ratio [dict_phone, dict_case, dict_older] example_query
     = [ranked_phone, ranked_older, ranked_case]"
  by code_simp

lemma example_relevance:
  "calculate_relevance_score indel_ratio ''iPhone 16 Pro'' example_query = 1"
  "calculate_relevance_score indel_ratio ''iPhone 16 Pro Case'' example_query = 147 / 200"
  "calculate_relevance_score indel_ratio ''iPhone 15 Pro'' example_query = 49 / 50"
  by code_simp+

lemma example_older_alone:
  "calculate_mcdm_scores indel_ratio [dict_older] example_query
     = [with_scores dict_older (43 / 50) (49 / 50)]"
  by code_simp

lemma example_flags:
  "has_exact_matches [dict_phone, dict_case, dict_older] example_query"
  "\<not> has_exact_matches [dict_older] example_query"
  "is_accessory_product (lower ''iPhone 16 Pro Case'')"
  "\<not> is_searching_for_accessory example_query"
  by code_simp+


theorem calculate_mcdm_scores_composite_witness:
  "calculate_mcdm_scores indel_ratio [dict_phone, dict_case, dict_older] example_query
     = [ranked_phone, ranked_older, ranked_case] \<and>
   mcdm_score ranked_older \<le> mcdm_score ranked_phone \<and>
   mcdm_score ranked_case \<le> mcdm_score ranked_older \<and>
   mset (map base_of [ranked_phone, ranked_older, ranked_case])
     = mset [dict_phone, dict_case, dict_older] \<and>
   reliability_of ''Snapdeal'' = 0.80 \<and>
   reliability_of ''Croma'' = 0.5 \<and>
   mcdm_score ranked_case =
     relevance_score ranked_case * 0.75
     + normalize_price_score [119900, 499, 99900] ! 1 * 0.20
     + reliability_of ''Snapdeal'' * 0.05 \<and>
   mcdm_score ranked_case = 441 / 2000 * 0.75 + 1 * 0.20 + 0.80 * 0.05"
proof -
  let ?ps = "[dict_phone, dict_case, dict_older]"
  note t = calculate_mcdm_scores_composite
    [of indel_ratio ?ps example_query, unfolded example_ranking]
  from t have "sorted_wrt (\<lambda>a b. mcdm_score b \<le> mcdm_score a) [ranked_phone, ranked_older, ranked_case]"
    by (rule conjunct1)
  then have order: "mcdm_score ranked_older \<le> mcdm_score ranked_phone"
    "mcdm_score ranked_case \<le> mcdm_score ranked_older"
    by simp_all
  from t have perm: "mset (map base_of [ranked_phone, ranked_older, ranked_case]) = mset ?ps"
    by blast
  from t have known: "(''Snapdeal'', 0.80) \<in> set source_reliability_table \<longrightarrow>
      reliability_of ''Snapdeal'' = 0.80"
    by blast
  from t have unknown: "''Croma'' \<notin> fst ` set source_reliability_table \<longrightarrow>
      reliability_of ''Croma'' = 0.5"
    by blast
  have snapdeal: "reliability_of ''Snapdeal'' = 0.80"
    using known by (simp add: source_reliability_table_def)
  have croma: "reliability_of ''Croma'' = 0.5"
    using unknown by (simp add: source_reliability_table_def)
  from t have "\<forall>x \<in> set [ranked_phone, ranked_older, ranked_case]. \<exists>i < length ?ps.
      base_of x = ?ps ! i \<and>
      relevance_score x = relevance (criteria_matrix indel_ratio ?ps example_query ! i) \<and>
      mcdm_score x = relevance (criteria_matrix indel_ratio ?ps example_query ! i) * 0.75
                     + normalize_price_score (map d_price ?ps) ! i * 0.20
                     + reliability_of (d_source (?ps ! i)) * 0.05"
    by blast
  then obtain i where i: "i < length ?ps" and b: "base_of ranked_case = ?ps ! i"
    and r: "relevance_score ranked_case = relevance (criteria_matrix indel_ratio ?ps example_query ! i)"
    and m: "mcdm_score ranked_case =
              relevance (criteria_matrix indel_ratio ?ps example_query ! i) * 0.75
              + normalize_price_score (map d_price ?ps) ! i * 0.20
              + reliability_of (d_source (?ps ! i)) * 0.05"
    by auto
  from i have "i = 0 \<or> i = 1 \<or> i = 2" by auto
  moreover have "base_of ranked_case \<noteq> dict_phone" "base_of ranked_case \<noteq> dict_older"
    by (simp_all add: ranked_case_def dict_case_def dict_phone_def dict_older_def)
  ultimately have "i = 1" using b by auto
  with r m have composite: "mcdm_score ranked_case =
     relevance_score ranked_case * 0.75
     + normalize_price_score [119900, 499, 99900] ! 1 * 0.20
     + reliability_of ''Snapdeal'' * 0.05"
    by (simp add: dict_phone_def dict_case_def dict_older_def)
  have "mcdm_score ranked_case = 441 / 2000 * 0.75 + 1 * 0.20 + 0.80 * 0.05"
    by (simp add: ranked_case_def)
  with order perm snapdeal croma composite example_ranking show ?thesis by simp
qed

theorem contextual_adjustments_witness:
  "has_exact_matches [dict_phone, dict_case, dict_older] example_query \<and>
   relevance_score ranked_phone = calculate_relevance_score indel_ratio ''iPhone 16 Pro'' example_query \<and>
   relevance_score ranked_older = calculate_relevance_score indel_ratio ''iPhone 15 Pro'' example_query * 0.8 \<and>
   relevance_score ranked_case = calculate_relevance_score indel_ratio ''iPhone 16 Pro Case'' example_query * 0.3 \<and>
   \<not> has_exact_matches [dict_older] example_query \<and>
   map relevance_score (calculate_mcdm_scores indel_ratio [dict_older] example_query)
     = [calculate_relevance_score indel_ratio ''iPhone 15 Pro'' example_query]"
proof -
  note t = contextual_adjustments
    [of "[dict_phone, dict_case, dict_older]" example_query indel_ratio, unfolded example_ranking]
  note u = contextual_adjustments
    [of "[dict_older]" example_query indel_ratio, unfolded example_older_alone]
  have names: "productName ranked_phone = ''iPhone 16 Pro''"
    "productName ranked_older = ''iPhone 15 Pro''"
    "productName ranked_case = ''iPhone 16 Pro Case''"
    by (simp_all add: ranked_phone_def ranked_older_def ranked_case_def
          dict_phone_def dict_older_def dict_case_def)
  have exact: "is_exact_model_match (lower ''iPhone 16 Pro'') (lower example_query)"
    "\<not> is_exact_model_match (lower ''iPhone 15 Pro'') (lower example_query)"
    "is_exact_model_match (lower ''iPhone 16 Pro Case'') (lower example_query)"
    "\<not> is_accessory_product (lower ''iPhone 16 Pro'')"
    "\<not> is_accessory_product (lower ''iPhone 15 Pro'')"
    by code_simp+
  from t have "\<forall>x \<in> set [ranked_phone, ranked_older, ranked_case].
      relevance_score x =
        calculate_relevance_score indel_ratio (productName x) example_query
          * (if has_exact_matches [dict_phone, dict_case, dict_older] example_query
                \<and> \<not> is_exact_model_match (lower (productName x)) (lower example_query)
             then 0.8 else 1)
          * (if has_exact_matches [dict_phone, dict_case, dict_older] example_query
                \<and> is_accessory_product (lower (productName x))
                \<and> \<not> is_searching_for_accessory example_query
             then 0.3 else 1)"
    by blast
  then have three: "relevance_score ranked_phone = calculate_relevance_score indel_ratio ''iPhone 16 Pro'' example_query"
    "relevance_score ranked_older = calculate_relevance_score indel_ratio ''iPhone 15 Pro'' example_query * 0.8"
    "relevance_score ranked_case = calculate_relevance_score indel_ratio ''iPhone 16 Pro Case'' example_query * 0.3"
    by (simp_all add: names exact example_flags)
  from u have "\<not> has_exact_matches [dict_older] example_query \<longrightarrow>
      (\<forall>x \<in> set [with_scores dict_older (43 / 50) (49 / 50)].
         relevance_score x = calculate_relevance_score indel_ratio (productName x) example_query)"
    by blast
  with example_flags(2)
  have "relevance_score (with_scores dict_older (43 / 50) (49 / 50)) =
      calculate_relevance_score indel_ratio
        (productName (with_scores dict_older (43 / 50) (49 / 50))) example_query"
    by simp
  moreover have "productName dict_older = ''iPhone 15 Pro''" by (simp add: dict_older_def)
  ultimately
  have alone: "map relevance_score (calculate_mcdm_scores indel_ratio [dict_older] example_query)
     = [calculate_relevance_score indel_ratio ''iPhone 15 Pro'' example_query]"
    by (simp add: example_older_alone)
  show ?thesis using three alone example_flags by simp
qed

theorem relevance_score_bounds_witness:
  "calculate_relevance_score indel_ratio ''iPhone 16 Pro Case'' example_query = 147 / 200 \<and>
   0 \<le> calculate_relevance_score indel_ratio ''iPhone 16 Pro Case'' example_query \<and>
   calculate_relevance_score indel_ratio ''iPhone 16 Pro Case'' example_query \<le> 1 \<and>
   relevance_score ranked_case = 441 / 2000 \<and>
   relevance_score ranked_case \<le> calculate_relevance_score indel_ratio ''iPhone 16 Pro Case'' example_query"
proof -
  have range: "\<forall>a b. 0 \<le> indel_ratio a b \<and> indel_ratio a b \<le> 100"
    using indel_ratio_range by blast
  note t = relevance_score_bounds
    [OF range, of "''iPhone 16 Pro Case''" example_query "[dict_phone, dict_case, dict_older]",
     unfolded example_ranking]
  from t have "0 \<le> calculate_relevance_score indel_ratio ''iPhone 16 Pro Case'' example_query"
    and "calculate_relevance_score indel_ratio ''iPhone 16 Pro Case'' example_query \<le> 1"
    by blast+
  moreover from t have "\<forall>x \<in> set [ranked_phone, ranked_older, ranked_case].
      0 \<le> relevance_score x \<and>
      relevance_score x \<le> calculate_relevance_score indel_ratio (productName x) example_query"
    by blast
  then have "relevance_score ranked_case
      \<le> calculate_relevance_score indel_ratio (productName ranked_case) example_query"
    by simp
  then have "relevance_score ranked_case
      \<le> calculate_relevance_score indel_ratio ''iPhone 16 Pro Case'' example_query"
    by (simp add: ranked_case_def dict_case_def)
  moreover have "relevance_score ranked_case = 441 / 2000" by (simp add: ranked_case_def)
  ultimately show ?thesis using example_relevance(2) by simp
qed

subsection \<open>The relevance filter\<close>

lemma sorted_wrt_filter_low_relevance:
  "sorted_wrt R ps \<Longrightarrow> sorted_wrt R (filter_low_relevance ps m)"
  by (simp add: filter_low_relevance_def sorted_wrt_filter)

text \<open>
  C2: the relevance filter keeps exactly the products whose stored relevance is at least
  the threshold, each as often as it occurred: no product below the threshold is in the
  output and every product of the output is at or above it. The output is a subsequence
  of the input, so the products kept are in their former order, and a list sorted by
  descending composite score stays sorted; in particular the filtered result of
  \<open>calculate_mcdm_scores\<close> is sorted by descending composite score.
\<close>

theorem filter_low_relevance_correct:
  "mset (filter_low_relevance ps m) = filter_mset (\<lambda>p. m \<le> relevance_score p) (mset ps) \<and>
   (\<forall>p \<in> set ps. relevance_score p < m \<longrightarrow> p \<notin> set (filter_low_relevance ps m)) \<and>
   (\<forall>p \<in> set (filter_low_relevance ps m). m \<le> relevance_score p) \<and>
   subseq (filter_low_relevance ps m) ps \<and>
   (sorted_wrt (\<lambda>a b. mcdm_score b \<le> mcdm_score a) ps \<longrightarrow>
      sorted_wrt (\<lambda>a b. mcdm_score b \<le> mcdm_score a) (filter_low_relevance ps m)) \<and>
   sorted_wrt (\<lambda>a b. mcdm_score b \<le> mcdm_score a)
     (filter_low_relevance (calculate_mcdm_scores tsr products q) m)"
proof (intro conjI)
  show "mset (filter_low_relevance ps m) = filter_mset (\<lambda>p. m \<le> relevance_score p) (mset ps)"
    by (simp add: filter_low_relevance_def)
  show "\<forall>p \<in> set ps. relevance_score p < m \<longrightarrow> p \<notin> set (filter_low_relevance ps m)"
    by (auto simp: filter_low_relevance_def)
  show "\<forall>p \<in> set (filter_low_relevance ps m). m \<le> relevance_score p"
    by (simp add: filter_low_relevance_def)
  show "subseq (filter_low_relevance ps m) ps"
    by (simp add: filter_low_relevance_def)
  show "sorted_wrt (\<lambda>a b. mcdm_score b \<le> mcdm_score a) ps \<longrightarrow>
      sorted_wrt (\<lambda>a b. mcdm_score b \<le> mcdm_score a) (filter_low_relevance ps m)"
    by (simp add: sorted_wrt_filter_low_relevance)
  show "sorted_wrt (\<lambda>a b. mcdm_score b \<le> mcdm_score a)
     (filter_low_relevance (calculate_mcdm_scores tsr products q) m)"
    by (rule sorted_wrt_filter_low_relevance) (rule calculate_mcdm_scores_sorted)
qed

theorem filter_low_relevance_correct_witness:
  "filter_low_relevance [ranked_phone, ranked_older, ranked_case] 0.3 = [ranked_phone, ranked_older] \<and>
   relevance_score ranked_case < 0.3 \<and>
   ranked_case \<notin> set (filter_low_relevance [ranked_phone, ranked_older, ranked_case] 0.3) \<and>
   mcdm_score ranked_older \<le> mcdm_score ranked_phone"
proof -
  note t = filter_low_relevance_correct
    [of "[ranked_phone, ranked_older, ranked_case]" "0.3" indel_ratio
        "[dict_phone, dict_case, dict_older]" example_query]
  have out: "filter_low_relevance [ranked_phone, ranked_older, ranked_case] 0.3
      = [ranked_phone, ranked_older]"
    by (simp add: filter_low_relevance_def ranked_phone_def ranked_older_def ranked_case_def)
  have low: "relevance_score ranked_case < 0.3" by (simp add: ranked_case_def)
  from t have "ranked_case \<in> set [ranked_phone, ranked_older, ranked_case] \<longrightarrow>
      relevance_score ranked_case < 0.3 \<longrightarrow>
      ranked_case \<notin> set (filter_low_relevance [ranked_phone, ranked_older, ranked_case] 0.3)"
    by blast
  then have gone: "ranked_case \<notin> set (filter_low_relevance [ranked_phone, ranked_older, ranked_case] 0.3)"
    using low by simp
  have "sorted_wrt (\<lambda>a b. mcdm_score b \<le> mcdm_score a) [ranked_phone, ranked_older, ranked_case]"
    by (simp add: ranked_phone_def ranked_older_def ranked_case_def)
  with t have "sorted_wrt (\<lambda>a b. mcdm_score b \<le> mcdm_score a)
      (filter_low_relevance [ranked_phone, ranked_older, ranked_case] 0.3)"
    by blast
  then have "mcdm_score ranked_older \<le> mcdm_score ranked_phone" by (simp add: out)
  with out low gone show ?thesis by simp
qed

subsection \<open>Searching\<close>

lemma collect_products_concat:
  "collect_products acc results = acc @ concat (map listings_of results)"
  by (induction acc results rule: collect_products.induct) (simp_all add: listings_of_def)

lemma concat_succeeded:
  "concat (map listings_of (filter succeeded results)) = concat (map listings_of results)"
proof (induction results)
  case Nil
  then show ?case by simp
next
  case (Cons r results)
  then show ?case by (cases r) (simp_all add: listings_of_def succeeded_def)
qed

lemma collect_products_succeeded:
  "collect_products acc
     (map (\<lambda>scraper. scraper query) (filter (\<lambda>scraper. succeeded (scraper query)) scrapers))
   = collect_products acc (map (\<lambda>scraper. scraper query) scrapers)"
proof (induction scrapers arbitrary: acc)
  case Nil
  then show ?case by simp
next
  case (Cons s scrapers)
  then show ?case by (cases "s query") (simp_all add: succeeded_def)
qed

lemma search_products_pipeline:
  "search_products ratio tsr scrapers query =
     filter_low_relevance
       (calculate_mcdm_scores tsr
          (map to_dict (remove_duplicates ratio
             (collect_products [] (map (\<lambda>scraper. scraper query) scrapers)))) query) 0.2"
proof (cases "scrapers = []")
  case True
  then show ?thesis
    by (simp add: search_products_def remove_duplicates_def calculate_mcdm_scores_def
          filter_low_relevance_def)
next
  case False
  then show ?thesis by (simp add: search_products_def Let_def)
qed

text \<open>
  C7: the products the search collects are the concatenation, in scraper order, of the
  lists of the scrapers that returned one; a scraper that raised contributes nothing. The
  search returns the filtered ranking of these products, the same result as a search
  over the succeeding scrapers alone, sorted by descending composite score. The model has
  no failing branch: every result of the scrapers, list or exception, leads to a returned
  list.
\<close>

theorem search_products_partial_failure:
  "collect_products [] (map (\<lambda>scraper. scraper query) scrapers)
     = concat (map listings_of (filter succeeded (map (\<lambda>scraper. scraper query) scrapers))) \<and>
   (\<forall>scraper \<in> set scrapers. \<not> succeeded (scraper query) \<longrightarrow> listings_of (scraper query) = []) \<and>
   search_products ratio tsr scrapers query =
     filter_low_relevance
       (calculate_mcdm_scores tsr
          (map to_dict (remove_duplicates ratio
             (concat (map listings_of
                (filter succeeded (map (\<lambda>scraper. scraper query) scrapers)))))) query) 0.2 \<and>
   search_products ratio tsr scrapers query =
     search_products ratio tsr (filter (\<lambda>scraper. succeeded (scraper query)) scrapers) query \<and>
   sorted_wrt (\<lambda>a b. mcdm_score b \<le> mcdm_score a) (search_products ratio tsr scrapers query)"
proof -
  let ?results = "map (\<lambda>scraper. scraper query) scrapers"
  have collect: "collect_products [] ?results = concat (map listings_of (filter succeeded ?results))"
    by (simp only: collect_products_concat concat_succeeded append_Nil)
  have failed: "\<forall>scraper \<in> set scrapers.
      \<not> succeeded (scraper query) \<longrightarrow> listings_of (scraper query) = []"
    by (auto simp: succeeded_def listings_of_def split: gather_result.splits)
  have pipeline: "search_products ratio tsr scrapers query =
     filter_low_relevance
       (calculate_mcdm_scores tsr
          (map to_dict (remove_duplicates ratio
             (concat (map listings_of (filter succeeded ?results))))) query) 0.2"
    by (simp only: search_products_pipeline collect)
  have "collect_products [] ?results
      = collect_products [] (map (\<lambda>scraper. scraper query)
          (filter (\<lambda>scraper. succeeded (scraper query)) scrapers))"
    by (simp only: collect_products_succeeded)
  then have same: "search_products ratio tsr scrapers query =
     search_products ratio tsr (filter (\<lambda>scraper. succeeded (scraper query)) scrapers) query"
    by (simp only: search_products_pipeline)
  have sorted: "sorted_wrt (\<lambda>a b. mcdm_score b \<le> mcdm_score a)
      (search_products ratio tsr scrapers query)"
    by (simp only: search_products_pipeline)
       (rule sorted_wrt_filter_low_relevance, rule calculate_mcdm_scores_sorted)
  from collect failed pipeline same sorted show ?thesis by blast
qed

lemma example_search:
  "search_products indel_ratio indel_ratio [scraper_amazon, scraper_snapdeal] example_query
     = [ranked_phone, with_scores dict_case (3243 / 8000) (441 / 2000)]"
  by code_simp

theorem search_products_partial_failure_witness:
  "search_products indel_ratio indel_ratio [scraper_amazon, scraper_flipkart, scraper_snapdeal]
     example_query = [ranked_phone, with_scores dict_case (3243 / 8000) (441 / 2000)] \<and>
   collect_products []
     (map (\<lambda>scraper. scraper example_query) [scraper_amazon, scraper_flipkart, scraper_snapdeal])
     = [product_phone, product_case] \<and>
   listings_of (scraper_flipkart example_query) = []"
proof -
  note t = search_products_partial_failure
    [of example_query "[scraper_amazon, scraper_flipkart, scraper_snapdeal]" indel_ratio indel_ratio]
  have ok: "succeeded (scraper_amazon example_query)" "\<not> succeeded (scraper_flipkart example_query)"
    "succeeded (scraper_snapdeal example_query)"
    by (simp_all add: succeeded_def scraper_amazon_def scraper_flipkart_def scraper_snapdeal_def)
  from t have "search_products indel_ratio indel_ratio
      [scraper_amazon, scraper_flipkart, scraper_snapdeal] example_query
    = search_products indel_ratio indel_ratio
        (filter (\<lambda>scraper. succeeded (scraper example_query))
           [scraper_amazon, scraper_flipkart, scraper_snapdeal]) example_query"
    by blast
  then have result: "search_products indel_ratio indel_ratio
      [scraper_amazon, scraper_flipkart, scraper_snapdeal] example_query
    = [ranked_phone, with_scores dict_case (3243 / 8000) (441 / 2000)]"
    by (simp add: ok example_search)
  from t have "collect_products []
      (map (\<lambda>scraper. scraper example_query) [scraper_amazon, scraper_flipkart, scraper_snapdeal])
    = concat (map listings_of (filter succeeded
        (map (\<lambda>scraper. scraper example_query) [scraper_amazon, scraper_flipkart, scraper_snapdeal])))"
    by blast
  then have collected: "collect_products []
      (map (\<lambda>scraper. scraper example_query) [scraper_amazon, scraper_flipkart, scraper_snapdeal])
    = [product_phone, product_case]"
    by (simp add: ok) (simp add: listings_of_def scraper_amazon_def scraper_snapdeal_def)
  from t have "scraper_flipkart \<in> set [scraper_amazon, scraper_flipkart, scraper_snapdeal] \<longrightarrow>
      \<not> succeeded (scraper_flipkart example_query) \<longrightarrow>
      listings_of (scraper_flipkart example_query) = []"
    by blast
  then have "listings_of (scraper_flipkart example_query) = []" using ok by simp
  with result collected show ?thesis by simp
qed

end
